theory Spec2Isabelle
  imports Main "HOL-Library.AList"
begin

section \<open>JavaScript values\<close>

text \<open>
  The transformer, the loader and the routes work on untyped (\<open>any\<close>) values that come
  from parsed JSON. \<open>JObj\<close> lists the own properties of an object in enumeration order,
  with distinct keys. Numbers are restricted to integers. \<open>JFun\<close> is a built-in method
  (by name): the only way the program obtains one is by reading \<open>map\<close> from an array.
  Strings are sequences of code units.
\<close>

datatype json =
    JUndefined
  | JNull
  | JBool bool
  | JNum int
  | JStr string
  | JArr "json list"
  | JObj "(string \<times> json) list"
  | JFun string

text \<open>An exception: an \<open>Error\<close> thrown by the program, or a \<open>TypeError\<close> of the runtime;
  both carry their message.\<close>

datatype error = Err string | TypeErr string

fun message :: "error \<Rightarrow> string" where
  "message (Err m) = m"
| "message (TypeErr m) = m"

definition bindE :: "error + 'a \<Rightarrow> ('a \<Rightarrow> error + 'b) \<Rightarrow> error + 'b" where
  "bindE m f = (case m of Inl e \<Rightarrow> Inl e | Inr x \<Rightarrow> f x)"

fun mapE :: "('a \<Rightarrow> error + 'b) \<Rightarrow> 'a list \<Rightarrow> error + 'b list" where
  "mapE f [] = Inr []"
| "mapE f (x # xs) =
     (case f x of Inl e \<Rightarrow> Inl e
      | Inr y \<Rightarrow> (case mapE f xs of Inl e \<Rightarrow> Inl e | Inr ys \<Rightarrow> Inr (y # ys)))"

fun truthy :: "json \<Rightarrow> bool" where
  "truthy JUndefined = False"
| "truthy JNull = False"
| "truthy (JBool b) = b"
| "truthy (JNum n) = (n \<noteq> 0)"
| "truthy (JStr s) = (s \<noteq> [])"
| "truthy (JArr xs) = True"
| "truthy (JObj kvs) = True"
| "truthy (JFun f) = True"

fun nullish :: "json \<Rightarrow> bool" where
  "nullish JUndefined = True"
| "nullish JNull = True"
| "nullish v = False"

text \<open>\<open>a || b\<close>\<close>

definition js_or :: "json \<Rightarrow> json \<Rightarrow> json" where
  "js_or a b = (if truthy a then a else b)"

text \<open>
  \<open>v.k\<close> for a value \<open>v\<close> that is not \<open>null\<close> or \<open>undefined\<close> and a property name \<open>k\<close>
  that is not an index. Of the names the program reads, primitives and arrays inherit
  only \<open>map\<close> (arrays); a function has its \<open>name\<close>.
\<close>

fun get_prop :: "json \<Rightarrow> string \<Rightarrow> json" where
  "get_prop (JObj kvs) k = (case map_of kvs k of Some v \<Rightarrow> v | None \<Rightarrow> JUndefined)"
| "get_prop (JArr xs) k = (if k = ''map'' then JFun ''map'' else JUndefined)"
| "get_prop (JFun f) k = (if k = ''name'' then JStr f else JUndefined)"
| "get_prop v k = JUndefined"

definition cannot_read :: "json \<Rightarrow> string \<Rightarrow> error" where
  "cannot_read v k =
     TypeErr (''Cannot read properties of '' @ (if v = JNull then ''null'' else ''undefined'')
              @ '' (reading '' @ [CHR 0x27] @ k @ [CHR 0x27] @ '')'')"

text \<open>\<open>v.k\<close> for any \<open>v\<close>: reading a property of \<open>null\<close> or \<open>undefined\<close> throws.\<close>

definition read_prop :: "json \<Rightarrow> string \<Rightarrow> error + json" where
  "read_prop v k = (if nullish v then Inl (cannot_read v k) else Inr (get_prop v k))"

text \<open>\<open>v[0]\<close> for a value \<open>v\<close> that is not \<open>null\<close> or \<open>undefined\<close>.\<close>

fun idx0 :: "json \<Rightarrow> json" where
  "idx0 (JArr []) = JUndefined"
| "idx0 (JArr (x # xs)) = x"
| "idx0 (JStr []) = JUndefined"
| "idx0 (JStr (c # cs)) = JStr [c]"
| "idx0 (JObj kvs) = (case map_of kvs ''0'' of Some v \<Rightarrow> v | None \<Rightarrow> JUndefined)"
| "idx0 v = JUndefined"

text \<open>\<open>v?.[0]\<close> and \<open>v?.k\<close>\<close>

definition opt_idx0 :: "json \<Rightarrow> json" where
  "opt_idx0 v = (if nullish v then JUndefined else idx0 v)"

definition opt_prop :: "json \<Rightarrow> string \<Rightarrow> json" where
  "opt_prop v k = (if nullish v then JUndefined else get_prop v k)"

section \<open>Property keys and own properties\<close>

fun show_nat :: "nat \<Rightarrow> string" where
  "show_nat n =
     (if n < 10 then [''0123456789'' ! n]
      else show_nat (n div 10) @ [''0123456789'' ! (n mod 10)])"

declare show_nat.simps [simp del]

definition show_int :: "int \<Rightarrow> string" where
  "show_int n = (if n < 0 then ''-'' @ show_nat (nat (- n)) else show_nat (nat n))"

text \<open>
  \<open>String(v)\<close>, which is how a value becomes a property key. An array joins its
  elements with commas, \<open>null\<close> and \<open>undefined\<close> elements as the empty string; integers
  below \<open>10^21\<close> print in decimal.
\<close>

fun to_str :: "json \<Rightarrow> string" and join_str :: "json list \<Rightarrow> string" where
  "to_str JUndefined = ''undefined''"
| "to_str JNull = ''null''"
| "to_str (JBool b) = (if b then ''true'' else ''false'')"
| "to_str (JNum n) = show_int n"
| "to_str (JStr s) = s"
| "to_str (JArr xs) = join_str xs"
| "to_str (JObj kvs) = ''[object Object]''"
| "to_str (JFun f) = ''function '' @ f @ ''() { [native code] }''"
| "join_str [] = []"
| "join_str [x] = (if nullish x then [] else to_str x)"
| "join_str (x # y # ys) = (if nullish x then [] else to_str x) @ '','' @ join_str (y # ys)"

definition is_digit :: "char \<Rightarrow> bool" where
  "is_digit c = (c \<in> set ''0123456789'')"

definition read_nat :: "string \<Rightarrow> int" where
  "read_nat s = foldl (\<lambda>n c. 10 * n + (of_char c - 48)) 0 s"

text \<open>An array index: the canonical decimal form of an integer below \<open>2^32 - 1\<close>.\<close>

definition is_index :: "string \<Rightarrow> bool" where
  "is_index k = (k \<noteq> [] \<and> list_all is_digit k \<and> (length k = 1 \<or> hd k \<noteq> CHR ''0'')
     \<and> read_nat k < 4294967295)"

fun insert_index :: "string \<Rightarrow> json \<Rightarrow> (string \<times> json) list \<Rightarrow> (string \<times> json) list" where
  "insert_index k v [] = [(k, v)]"
| "insert_index k v (p # ps) =
     (if is_index (fst p) \<and> read_nat (fst p) < read_nat k then p # insert_index k v ps
      else (k, v) # p # ps)"

text \<open>
  \<open>result[k] = v\<close> where the assignment makes or changes an own property: an existing
  property keeps its place; a new one is enumerated among the array indices in numeric
  order, or after every other property.
\<close>

definition set_own :: "(string \<times> json) list \<Rightarrow> string \<Rightarrow> json \<Rightarrow> (string \<times> json) list" where
  "set_own kvs k v =
     (if k \<in> fst ` set kvs then AList.update k v kvs
      else if is_index k then insert_index k v kvs
      else kvs @ [(k, v)])"

text \<open>
  An object that starts as \<open>{}\<close> inherits the accessor \<open>__proto__\<close>, and an assignment to
  that key reaches the accessor: it makes no own property, and it replaces the
  prototype when the value is an object or \<open>null\<close>. This is whether the accessor is still
  inherited after the value \<open>v\<close> was assigned: not below \<open>null\<close>, and not below a parsed
  object that has \<open>__proto__\<close> as an own property.
\<close>

fun inherits_proto :: "json \<Rightarrow> bool" where
  "inherits_proto JNull = False"
| "inherits_proto (JObj kvs) = (''__proto__'' \<notin> fst ` set kvs)"
| "inherits_proto v = True"

text \<open>\<open>Object.keys(v)\<close> for a value that is not \<open>null\<close> or \<open>undefined\<close>.\<close>

fun keys_of :: "json \<Rightarrow> string list" where
  "keys_of (JObj kvs) = map fst kvs"
| "keys_of (JArr xs) = map show_nat [0 ..< length xs]"
| "keys_of (JStr s) = map show_nat [0 ..< length s]"
| "keys_of v = []"

section \<open>The transformer (XmlToJsonTransformer)\<close>

text \<open>\<open>obj && obj[prop] ? obj[prop][0] : null\<close>\<close>

definition getValue :: "json \<Rightarrow> string \<Rightarrow> json" where
  "getValue obj p =
     (if truthy obj \<and> truthy (get_prop obj p) then idx0 (get_prop obj p) else JNull)"

definition transformContact :: "json \<Rightarrow> json" where
  "transformContact contactData =
     (if \<not> truthy contactData then JNull
      else JObj [
        (''name'', js_or (opt_idx0 (get_prop contactData ''name'')) (JStr [])),
        (''email'', js_or (opt_idx0 (get_prop contactData ''email'')) (JStr [])),
        (''phone'', js_or (opt_idx0 (get_prop contactData ''phone'')) (JStr []))])"

definition not_a_function :: "string \<Rightarrow> error" where
  "not_a_function f = TypeErr (f @ '' is not a function'')"

definition transformIdentifier :: "json \<Rightarrow> error + json" where
  "transformIdentifier ident =
     (if nullish ident then Inl (cannot_read ident ''type'')
      else Inr (JObj [
        (''type'', js_or (opt_idx0 (get_prop ident ''type'')) (JStr ''custom'')),
        (''value'', js_or (opt_idx0 (get_prop ident ''value'')) (JStr [])),
        (''name'', js_or (opt_idx0 (get_prop ident ''name'')) JNull)]))"

definition transformIdentifiers :: "json \<Rightarrow> error + json" where
  "transformIdentifiers identifiersData =
     (if \<not> truthy identifiersData \<or> \<not> truthy (get_prop identifiersData ''Identifier'')
      then Inr (JArr [])
      else (case get_prop identifiersData ''Identifier'' of
              JArr ids \<Rightarrow> bindE (mapE transformIdentifier ids) (\<lambda>rs. Inr (JArr rs))
            | _ \<Rightarrow> Inl (not_a_function ''identifiersData.Identifier.map'')))"

definition transformEndpointRef :: "json \<Rightarrow> error + json" where
  "transformEndpointRef ep =
     (if nullish ep then Inl (cannot_read ep ''id'')
      else Inr (js_or (opt_idx0 (get_prop ep ''id'')) ep))"

definition transformEndpointRefs :: "json \<Rightarrow> error + json" where
  "transformEndpointRefs endpointsData =
     (if \<not> truthy endpointsData \<or> \<not> truthy (get_prop endpointsData ''Endpoint'')
      then Inr (JArr [])
      else (case get_prop endpointsData ''Endpoint'' of
              JArr eps \<Rightarrow> bindE (mapE transformEndpointRef eps) (\<lambda>rs. Inr (JArr rs))
            | _ \<Rightarrow> Inl (not_a_function ''endpointsData.Endpoint.map'')))"

text \<open>
  The body of the \<open>forEach\<close> over \<open>propsData.Property\<close>, with \<open>result\<close> as accumulator
  and whether \<open>result\<close> still inherits the accessor \<open>__proto__\<close>.
\<close>

fun eachProperty ::
  "json list \<Rightarrow> bool \<Rightarrow> (string \<times> json) list \<Rightarrow> error + (string \<times> json) list" where
  "eachProperty [] inherits result = Inr result"
| "eachProperty (p # ps) inherits result =
     (if nullish p then Inl (cannot_read p ''name'')
      else (let name = opt_idx0 (get_prop p ''name'');
                val = opt_idx0 (get_prop p ''value'')
            in if truthy name \<and> val \<noteq> JUndefined
               then (if to_str name = ''__proto__'' \<and> inherits
                     then eachProperty ps (inherits_proto val) result
                     else eachProperty ps inherits (set_own result (to_str name) val))
               else eachProperty ps inherits result))"

definition transformProperties :: "json \<Rightarrow> error + json" where
  "transformProperties propsData =
     (if \<not> truthy propsData \<or> \<not> truthy (get_prop propsData ''Property'')
      then Inr (JObj [])
      else (case get_prop propsData ''Property'' of
              JArr ps \<Rightarrow> bindE (eachProperty ps True []) (\<lambda>r. Inr (JObj r))
            | _ \<Rightarrow> Inl (not_a_function ''propsData.Property.forEach'')))"

definition transformSecurity :: "json \<Rightarrow> json" where
  "transformSecurity securityData =
     (if \<not> truthy securityData then JNull
      else JObj [
        (''type'', js_or (opt_idx0 (get_prop securityData ''type'')) (JStr [])),
        (''certificate'', js_or (opt_idx0 (get_prop securityData ''certificate'')) JNull),
        (''username'', js_or (opt_idx0 (get_prop securityData ''username'')) JNull),
        (''password'', js_or (opt_idx0 (get_prop securityData ''password'')) JNull)])"

text \<open>
  In the six typed mappings \<open>xmlData\<close> is not \<open>null\<close> or \<open>undefined\<close>
  (\<open>determineArtifactType\<close> has read a property of it), and \<open>now\<close> is
  \<open>new Date().toISOString()\<close>, read after every other field is computed.
\<close>

definition transformTradingPartner :: "string \<Rightarrow> json \<Rightarrow> error + json" where
  "transformTradingPartner now xmlData =
     (let partner = get_prop xmlData ''Partner'' in
      if \<not> truthy partner then Inl (Err ''Invalid trading partner data'')
      else
        bindE (transformIdentifiers (opt_idx0 (get_prop partner ''Identifiers''))) (\<lambda>identifiers.
        bindE (transformEndpointRefs (opt_idx0 (get_prop partner ''Endpoints''))) (\<lambda>endpoints.
        Inr (JObj [(''partner'', JObj [
          (''id'', getValue partner ''id''),
          (''name'', getValue partner ''name''),
          (''type'', JStr ''trading_partner''),
          (''status'', js_or (getValue partner ''status'') (JStr ''active'')),
          (''contact'', transformContact (opt_idx0 (get_prop partner ''Contact''))),
          (''identifiers'', identifiers),
          (''endpoints'', endpoints),
          (''created'', getValue partner ''created''),
          (''modified'', JStr now),
          (''apm_id'', JNull)])]))))"

definition transformChannel :: "string \<Rightarrow> json \<Rightarrow> error + json" where
  "transformChannel now xmlData =
     (let channel = get_prop xmlData ''Channel'' in
      if \<not> truthy channel then Inl (Err ''Invalid channel data'')
      else
        bindE (transformProperties (opt_idx0 (get_prop channel ''Properties''))) (\<lambda>properties.
        Inr (JObj [(''channel'', JObj [
          (''id'', getValue channel ''id''),
          (''name'', getValue channel ''name''),
          (''type'', getValue channel ''type''),
          (''protocol'', getValue channel ''protocol''),
          (''direction'', getValue channel ''direction''),
          (''properties'', properties),
          (''security'', transformSecurity (opt_idx0 (get_prop channel ''Security''))),
          (''created'', getValue channel ''created''),
          (''modified'', JStr now),
          (''apm_id'', JNull)])])))"

definition transformCertificate :: "string \<Rightarrow> json \<Rightarrow> error + json" where
  "transformCertificate now xmlData =
     (let cert = get_prop xmlData ''Certificate'' in
      if \<not> truthy cert then Inl (Err ''Invalid certificate data'')
      else
        Inr (JObj [(''certificate'', JObj [
          (''id'', getValue cert ''id''),
          (''name'', getValue cert ''name''),
          (''type'', js_or (getValue cert ''type'') (JStr ''x509'')),
          (''format'', js_or (getValue cert ''format'') (JStr ''PEM'')),
          (''data'', getValue cert ''data''),
          (''fingerprint'', getValue cert ''fingerprint''),
          (''issuer'', getValue cert ''issuer''),
          (''subject'', getValue cert ''subject''),
          (''validFrom'', getValue cert ''validFrom''),
          (''validTo'', getValue cert ''validTo''),
          (''created'', getValue cert ''created''),
          (''modified'', JStr now),
          (''apm_id'', JNull)])]))"

definition transformMap :: "string \<Rightarrow> json \<Rightarrow> error + json" where
  "transformMap now xmlData =
     (let mp = get_prop xmlData ''Map'' in
      if \<not> truthy mp then Inl (Err ''Invalid map data'')
      else
        Inr (JObj [(''map'', JObj [
          (''id'', getValue mp ''id''),
          (''name'', getValue mp ''name''),
          (''type'', js_or (getValue mp ''type'') (JStr ''EDI'')),
          (''sourceFormat'', getValue mp ''sourceFormat''),
          (''targetFormat'', getValue mp ''targetFormat''),
          (''transformation'', getValue mp ''transformation''),
          (''created'', getValue mp ''created''),
          (''modified'', JStr now),
          (''apm_id'', JNull)])]))"

definition transformEndpoint :: "string \<Rightarrow> json \<Rightarrow> error + json" where
  "transformEndpoint now xmlData =
     (let endpoint = get_prop xmlData ''Endpoint'' in
      if \<not> truthy endpoint then Inl (Err ''Invalid endpoint data'')
      else
        bindE (transformProperties (opt_idx0 (get_prop endpoint ''Properties''))) (\<lambda>properties.
        Inr (JObj [(''endpoint'', JObj [
          (''id'', getValue endpoint ''id''),
          (''name'', getValue endpoint ''name''),
          (''type'', getValue endpoint ''type''),
          (''url'', getValue endpoint ''url''),
          (''properties'', properties),
          (''channelId'', getValue endpoint ''channelId''),
          (''partnerId'', getValue endpoint ''partnerId''),
          (''created'', getValue endpoint ''created''),
          (''modified'', JStr now),
          (''apm_id'', JNull)])])))"

definition transformSchema :: "string \<Rightarrow> json \<Rightarrow> error + json" where
  "transformSchema now xmlData =
     (let schema = get_prop xmlData ''Schema'' in
      if \<not> truthy schema then Inl (Err ''Invalid schema data'')
      else
        Inr (JObj [(''schema'', JObj [
          (''id'', getValue schema ''id''),
          (''name'', getValue schema ''name''),
          (''type'', getValue schema ''type''),
          (''standard'', getValue schema ''standard''),
          (''version'', getValue schema ''version''),
          (''format'', getValue schema ''format''),
          (''content'', getValue schema ''content''),
          (''created'', getValue schema ''created''),
          (''modified'', JStr now),
          (''apm_id'', JNull)])]))"

text \<open>
  \<open>clk n\<close> is the \<open>n\<close>-th \<open>new Date().toISOString()\<close> of the call. The generic mapping
  reads the clock for \<open>created\<close> only when the source has none, and then for \<open>modified\<close>.
\<close>

definition transformGeneric :: "(nat \<Rightarrow> string) \<Rightarrow> json \<Rightarrow> error + json" where
  "transformGeneric clk xmlData =
     (case keys_of xmlData of
        [] \<Rightarrow> Inl (Err ''Invalid data structure'')
      | rootElement # _ \<Rightarrow>
          if rootElement = [] then Inl (Err ''Invalid data structure'')
          else
            (let entity = (case xmlData of JObj kvs \<Rightarrow> get_prop xmlData rootElement
                           | _ \<Rightarrow> idx0 xmlData)
             in if nullish entity then Inl (cannot_read entity ''id'')
                else
                  (let created = opt_idx0 (get_prop entity ''created'') in
                   Inr (JObj [(''genericArtifact'', JObj [
                     (''type'', JStr ''other''),
                     (''originalType'', JStr rootElement),
                     (''id'', js_or (opt_idx0 (get_prop entity ''id'')) (JStr [])),
                     (''name'', js_or (opt_idx0 (get_prop entity ''name'')) (JStr [])),
                     (''data'', entity),
                     (''created'', if truthy created then created else JStr (clk 0)),
                     (''modified'', JStr (clk (if truthy created then 0 else 1))),
                     (''apm_id'', JNull)])]))))"

definition determineArtifactType :: "json \<Rightarrow> error + string" where
  "determineArtifactType xmlData =
     (if nullish xmlData then Inl (cannot_read xmlData ''Partner'')
      else if truthy (get_prop xmlData ''Partner'') then Inr ''trading_partner''
      else if truthy (get_prop xmlData ''Channel'') then Inr ''channel''
      else if truthy (get_prop xmlData ''Certificate'') then Inr ''certificate''
      else if truthy (get_prop xmlData ''Map'') then Inr ''map''
      else if truthy (get_prop xmlData ''Endpoint'') then Inr ''endpoint''
      else if truthy (get_prop xmlData ''Schema'') then Inr ''schema''
      else Inr ''other'')"

text \<open>
  \<open>transform(originalData)\<close>: the type is determined from the document, and every
  exception is rethrown as \<open>Transformation failed: ...\<close> (after it is logged).
\<close>

definition transform :: "(nat \<Rightarrow> string) \<Rightarrow> json \<Rightarrow> error + json" where
  "transform clk originalData =
     (case bindE (determineArtifactType originalData) (\<lambda>artifactType.
             if artifactType = ''trading_partner'' then transformTradingPartner (clk 0) originalData
             else if artifactType = ''channel'' then transformChannel (clk 0) originalData
             else if artifactType = ''certificate'' then transformCertificate (clk 0) originalData
             else if artifactType = ''map'' then transformMap (clk 0) originalData
             else if artifactType = ''endpoint'' then transformEndpoint (clk 0) originalData
             else if artifactType = ''schema'' then transformSchema (clk 0) originalData
             else transformGeneric clk originalData) of
        Inl e \<Rightarrow> Inl (Err (''Transformation failed: '' @ message e))
      | Inr r \<Rightarrow> Inr r)"

section \<open>The ledger (MemStorage)\<close>

text \<open>
  Rows of \<open>shared/schema.ts\<close>. \<open>type\<close> and \<open>status\<close> are text columns: the closed sets
  are TypeScript types only, so they are strings here. A \<open>Date\<close> is its number of
  milliseconds. \<open>transformedData\<close> and \<open>apmId\<close> are \<open>JUndefined\<close> while absent.
\<close>

record artifact =
  a_id :: nat
  a_name :: string
  a_originalId :: string
  a_type :: string
  a_status :: string
  a_originalData :: json
  a_transformedData :: json
  a_apmId :: json
  a_lastModified :: nat
  a_createdAt :: nat
  a_extractionId :: nat

text \<open>\<open>Partial<InsertArtifact>\<close>: \<open>None\<close> is a key that the update does not name.\<close>

record artifact_updates =
  u_name :: "string option"
  u_originalId :: "string option"
  u_type :: "string option"
  u_status :: "string option"
  u_originalData :: "json option"
  u_transformedData :: "json option"
  u_apmId :: "json option"
  u_lastModified :: "nat option"
  u_extractionId :: "nat option"

definition no_updates :: artifact_updates where
  "no_updates = \<lparr> u_name = None, u_originalId = None, u_type = None, u_status = None,
     u_originalData = None, u_transformedData = None, u_apmId = None,
     u_lastModified = None, u_extractionId = None \<rparr>"

record migration =
  m_id :: nat
  m_artifactId :: nat
  m_timestamp :: nat
  m_status :: string
  m_apmResponse :: json
  m_errorMessage :: "string option"

text \<open>\<open>InsertMigration\<close>: a migration without its id.\<close>

record insert_migration =
  im_artifactId :: nat
  im_timestamp :: nat
  im_status :: string
  im_apmResponse :: json
  im_errorMessage :: "string option"

text \<open>
  The two JavaScript \<open>Map\<close>s that the pipeline uses, as association lists in insertion
  order (\<open>Map.set\<close> replaces in place or appends), and their id counters. The maps of
  users, extractions and configurations are touched by none of the operations below.
\<close>

record storage =
  artifacts :: "(nat \<times> artifact) list"
  migrations :: "(nat \<times> migration) list"
  artifactId :: nat
  migrationId :: nat

definition getArtifact :: "nat \<Rightarrow> storage \<Rightarrow> artifact option" where
  "getArtifact i st = map_of (artifacts st) i"

definition getArtifactsByStatus :: "string \<Rightarrow> storage \<Rightarrow> artifact list" where
  "getArtifactsByStatus s st = filter (\<lambda>a. a_status a = s) (map snd (artifacts st))"

text \<open>\<open>{ ...artifact, ...updates, lastModified: new Date() }\<close>\<close>

definition spread_updates :: "artifact \<Rightarrow> artifact_updates \<Rightarrow> nat \<Rightarrow> artifact" where
  "spread_updates a u now =
     \<lparr> a_id = a_id a,
       a_name = (case u_name u of None \<Rightarrow> a_name a | Some v \<Rightarrow> v),
       a_originalId = (case u_originalId u of None \<Rightarrow> a_originalId a | Some v \<Rightarrow> v),
       a_type = (case u_type u of None \<Rightarrow> a_type a | Some v \<Rightarrow> v),
       a_status = (case u_status u of None \<Rightarrow> a_status a | Some v \<Rightarrow> v),
       a_originalData = (case u_originalData u of None \<Rightarrow> a_originalData a | Some v \<Rightarrow> v),
       a_transformedData =
         (case u_transformedData u of None \<Rightarrow> a_transformedData a | Some v \<Rightarrow> v),
       a_apmId = (case u_apmId u of None \<Rightarrow> a_apmId a | Some v \<Rightarrow> v),
       a_lastModified = now,
       a_createdAt = a_createdAt a,
       a_extractionId = (case u_extractionId u of None \<Rightarrow> a_extractionId a | Some v \<Rightarrow> v) \<rparr>"

text \<open>\<open>now\<close> is the clock reading of \<open>new Date()\<close>.\<close>

definition updateArtifact ::
  "nat \<Rightarrow> nat \<Rightarrow> artifact_updates \<Rightarrow> storage \<Rightarrow> artifact option \<times> storage" where
  "updateArtifact now i u st =
     (case map_of (artifacts st) i of
        None \<Rightarrow> (None, st)
      | Some a \<Rightarrow>
          (let a' = spread_updates a u now
           in (Some a', st\<lparr>artifacts := AList.update i a' (artifacts st)\<rparr>)))"

definition createMigration :: "insert_migration \<Rightarrow> storage \<Rightarrow> migration \<times> storage" where
  "createMigration im st =
     (let i = migrationId st;
          m = \<lparr> m_id = i, m_artifactId = im_artifactId im, m_timestamp = im_timestamp im,
                m_status = im_status im, m_apmResponse = im_apmResponse im,
                m_errorMessage = im_errorMessage im \<rparr>
      in (m, st\<lparr>migrations := AList.update i m (migrations st), migrationId := i + 1\<rparr>))"

definition getMigrationsByArtifactId :: "nat \<Rightarrow> storage \<Rightarrow> migration list" where
  "getMigrationsByArtifactId i st = filter (\<lambda>m. m_artifactId m = i) (map snd (migrations st))"

section \<open>The environment: target system and clock\<close>

text \<open>
  What a \<open>fetch\<close> gives: a rejection, or a response with its status, what
  \<open>response.text()\<close> and what \<open>response.json()\<close> give (each may reject).
\<close>

datatype http_response = NetFail error | Http nat "error + string" "error + json"

definition response_ok :: "nat \<Rightarrow> bool" where
  "response_ok status = (200 \<le> status \<and> status \<le> 299)"

record credentials =
  clientId :: string
  clientSecret :: string

text \<open>
  An outbound request, tagged with the id of the artifact whose task issued it: the
  token request with the credentials of its body, or the creation request with its
  URL, the token of its \<open>Authorization\<close> header and the object that is its body.
\<close>

datatype call = AuthCall nat string string | PushCall nat string json json

text \<open>
  Each route handles an artifact in a task of its own. The environment answers per task:
  the responses to its token request and to its creation request, and its clock
  readings in order (\<open>new Date()\<close> of the routes, and \<open>new Date().toISOString()\<close> of the
  transformer).
\<close>

record env =
  authResponse :: "nat \<Rightarrow> http_response"
  pushResponse :: "nat \<Rightarrow> http_response"
  dateNow :: "nat \<Rightarrow> nat \<Rightarrow> nat"
  isoNow :: "nat \<Rightarrow> nat \<Rightarrow> string"

section \<open>The loader (ApmLoader)\<close>

text \<open>\<open>getApmToken\<close>, from the response to its \<open>fetch\<close> on.\<close>

definition getApmToken :: "http_response \<Rightarrow> error + json" where
  "getApmToken r =
     (case (case r of
              NetFail e \<Rightarrow> Inl e
            | Http status text body \<Rightarrow>
                if \<not> response_ok status
                then bindE text (\<lambda>errorText.
                       Inl (Err (''Failed to get APM token: '' @ show_nat status @ '' '' @ errorText)))
                else bindE body (\<lambda>data. read_prop data ''access_token'')) of
        Inl e \<Rightarrow> Inl (Err (''Failed to authenticate with APM: '' @ message e))
      | Inr token \<Rightarrow> Inr token)"

definition mapPartnerToApm :: "json \<Rightarrow> json" where
  "mapPartnerToApm partner =
     JObj [
       (''name'', get_prop partner ''name''),
       (''identifier'', JObj [
          (''type'', js_or (opt_prop (opt_idx0 (get_prop partner ''identifiers'')) ''type'')
                       (JStr ''custom'')),
          (''value'', js_or (opt_prop (opt_idx0 (get_prop partner ''identifiers'')) ''value'')
                        (get_prop partner ''id''))]),
       (''attributes'', JObj [(''originalId'', get_prop partner ''id'')])]"

definition mapChannelToApm :: "json \<Rightarrow> json" where
  "mapChannelToApm channel =
     JObj [(''name'', get_prop channel ''name''), (''protocol'', get_prop channel ''protocol''),
           (''direction'', get_prop channel ''direction'')]"

definition mapCertificateToApm :: "json \<Rightarrow> json" where
  "mapCertificateToApm certificate =
     JObj [(''name'', get_prop certificate ''name''), (''type'', get_prop certificate ''type''),
           (''content'', get_prop certificate ''data'')]"

definition mapMapToApm :: "json \<Rightarrow> json" where
  "mapMapToApm mp =
     JObj [(''name'', get_prop mp ''name''), (''sourceFormat'', get_prop mp ''sourceFormat''),
           (''targetFormat'', get_prop mp ''targetFormat'')]"

definition mapEndpointToApm :: "json \<Rightarrow> json" where
  "mapEndpointToApm endpoint =
     JObj [(''name'', get_prop endpoint ''name''), (''type'', get_prop endpoint ''type''),
           (''url'', get_prop endpoint ''url'')]"

definition mapSchemaToApm :: "json \<Rightarrow> json" where
  "mapSchemaToApm schema =
     JObj [(''name'', get_prop schema ''name''), (''type'', get_prop schema ''type''),
           (''standard'', get_prop schema ''standard''), (''version'', get_prop schema ''version''),
           (''content'', get_prop schema ''content'')]"

text \<open>
  The six \<open>create...\<close> methods differ in the key they read, the mapping and the URL.
  This is the switch of \<open>load\<close>: for each supported type the key (also the word of the
  error messages), the URL and the mapping.
\<close>

definition apm_api :: string where
  "apm_api = ''https://anypoint.mulesoft.com/partnermanager/api/v2/''"

definition loadTarget :: "string \<Rightarrow> (string \<times> string \<times> (json \<Rightarrow> json)) option" where
  "loadTarget artifactType =
     (if artifactType = ''trading_partner''
        then Some (''partner'', apm_api @ ''partners'', mapPartnerToApm)
      else if artifactType = ''channel''
        then Some (''channel'', apm_api @ ''channels'', mapChannelToApm)
      else if artifactType = ''certificate''
        then Some (''certificate'', apm_api @ ''certificates'', mapCertificateToApm)
      else if artifactType = ''map''
        then Some (''map'', apm_api @ ''maps'', mapMapToApm)
      else if artifactType = ''endpoint''
        then Some (''endpoint'', apm_api @ ''endpoints'', mapEndpointToApm)
      else if artifactType = ''schema''
        then Some (''schema'', apm_api @ ''schemas'', mapSchemaToApm)
      else None)"

text \<open>The \<open>catch\<close> of a \<open>create...\<close> method.\<close>

definition createFailed :: "string \<Rightarrow> error \<Rightarrow> error" where
  "createFailed label e = Err (''Failed to create '' @ label @ '' in APM: '' @ message e)"

text \<open>
  A \<open>create...\<close> method up to its \<open>fetch\<close>: the body of the request. \<open>data\<close> is the
  transformed data, which the routes have checked to be truthy.
\<close>

definition createBody :: "string \<Rightarrow> (json \<Rightarrow> json) \<Rightarrow> json \<Rightarrow> error + json" where
  "createBody label mapper data =
     (if \<not> truthy (get_prop data label)
      then Inl (createFailed label (Err (''Invalid '' @ label @ '' data format'')))
      else Inr (mapper (get_prop data label)))"

text \<open>A \<open>create...\<close> method from the response to its \<open>fetch\<close> on.\<close>

definition createResult :: "string \<Rightarrow> http_response \<Rightarrow> error + json" where
  "createResult label r =
     (case (case r of
              NetFail e \<Rightarrow> Inl e
            | Http status text body \<Rightarrow>
                if \<not> response_ok status
                then bindE text (\<lambda>errorText.
                       Inl (Err (''Failed to create '' @ label @ '' in APM: '' @ show_nat status
                                 @ '' '' @ errorText)))
                else body) of
        Inl e \<Rightarrow> Inl (createFailed label e)
      | Inr apmResponse \<Rightarrow> Inr apmResponse)"

text \<open>
  \<open>load\<close> from the response to the token request up to the creation request. Its
  \<open>catch\<close> rewraps a failed authentication and an unsupported type; the promise of a
  \<open>create...\<close> method is returned without \<open>await\<close>, so its rejection passes unwrapped.
  The result is the key of the type and the request.
\<close>

definition loadRequest :: "env \<Rightarrow> artifact \<Rightarrow> error + (string \<times> call)" where
  "loadRequest e a =
     (case getApmToken (authResponse e (a_id a)) of
        Inl err \<Rightarrow> Inl (Err (''APM loading failed: '' @ message err))
      | Inr token \<Rightarrow>
          (case loadTarget (a_type a) of
             None \<Rightarrow> Inl (Err (''APM loading failed: Unsupported artifact type: '' @ a_type a))
           | Some (label, url, mapper) \<Rightarrow>
               bindE (createBody label mapper (a_transformedData a))
                 (\<lambda>body. Inr (label, PushCall (a_id a) url token body))))"

section \<open>The routes\<close>

text \<open>The ledger, and the outbound requests issued so far.\<close>

record world =
  store :: storage
  net :: "call list"

text \<open>
  The \<open>catch\<close> block of a migration: a \<open>failed\<close> migration record for the artifact,
  then the row \<open>i\<close> is set to \<open>error\<close>. \<open>k\<close> counts the clock readings that the task
  has made.
\<close>

definition recordFailure ::
  "env \<Rightarrow> artifact \<Rightarrow> nat \<Rightarrow> nat \<Rightarrow> error \<Rightarrow> storage \<Rightarrow> migration \<times> storage" where
  "recordFailure e a i k err st =
     (let (migration, st1) = createMigration
            \<lparr> im_artifactId = a_id a, im_timestamp = dateNow e (a_id a) k,
              im_status = ''failed'', im_apmResponse = JUndefined,
              im_errorMessage = Some (message err) \<rparr> st;
          (_, st2) = updateArtifact (dateNow e (a_id a) (k + 1)) i
            (no_updates\<lparr>u_status := Some ''error''\<rparr>) st1
      in (migration, st2))"

text \<open>
  What follows \<open>await loader.load(...)\<close> inside the \<open>try\<close>: a \<open>success\<close> migration
  record, then the row \<open>i\<close> is set to \<open>migrated\<close> with \<open>apmResponse.id\<close>. Reading \<open>id\<close>
  throws when the response is \<open>null\<close>, after the record is written, and the \<open>catch\<close>
  block runs.
\<close>

datatype outcome = Migrated migration "artifact option" | Failed string migration

definition recordSuccess ::
  "env \<Rightarrow> artifact \<Rightarrow> nat \<Rightarrow> json \<Rightarrow> storage \<Rightarrow> outcome \<times> storage" where
  "recordSuccess e a i apmResponse st =
     (let (migration, st1) = createMigration
            \<lparr> im_artifactId = a_id a, im_timestamp = dateNow e (a_id a) 0,
              im_status = ''success'', im_apmResponse = apmResponse,
              im_errorMessage = None \<rparr> st
      in (case read_prop apmResponse ''id'' of
            Inl err \<Rightarrow>
              (let (m, st2) = recordFailure e a i 1 err st1 in (Failed (message err) m, st2))
          | Inr apmId \<Rightarrow>
              (let (updated, st2) = updateArtifact (dateNow e (a_id a) 1) i
                     (no_updates\<lparr>u_status := Some ''migrated'', u_apmId := Some apmId\<rparr>) st1
               in (Migrated migration updated, st2))))"

text \<open>\<open>POST /api/migrate/:id\<close> with a numeric id and valid credentials.\<close>

datatype migrate_reply =
    NotFound404
  | BadRequest400 string
  | Migrated200 migration "artifact option"
  | Failed500 string migration

fun migrateReply :: "outcome \<Rightarrow> migrate_reply" where
  "migrateReply (Migrated m u) = Migrated200 m u"
| "migrateReply (Failed msg m) = Failed500 msg m"

definition migrateFailed ::
  "env \<Rightarrow> artifact \<Rightarrow> nat \<Rightarrow> error \<Rightarrow> storage \<Rightarrow> call list \<Rightarrow> migrate_reply \<times> world" where
  "migrateFailed e a i err st calls =
     (let (m, st') = recordFailure e a i 0 err st
      in (Failed500 (message err) m, \<lparr>store = st', net = calls\<rparr>))"

definition migrateOne :: "env \<Rightarrow> credentials \<Rightarrow> nat \<Rightarrow> storage \<Rightarrow> migrate_reply \<times> world" where
  "migrateOne e creds i st =
     (case getArtifact i st of
        None \<Rightarrow> (NotFound404, \<lparr>store = st, net = []\<rparr>)
      | Some artifact \<Rightarrow>
          if \<not> truthy (a_transformedData artifact)
          then (BadRequest400 ''Artifact must be transformed before migration'',
                \<lparr>store = st, net = []\<rparr>)
          else
            (let auth = AuthCall (a_id artifact) (clientId creds) (clientSecret creds) in
             case loadRequest e artifact of
               Inl err \<Rightarrow> migrateFailed e artifact i err st [auth]
             | Inr (label, request) \<Rightarrow>
                 (case createResult label (pushResponse e (a_id artifact)) of
                    Inl err \<Rightarrow> migrateFailed e artifact i err st [auth, request]
                  | Inr apmResponse \<Rightarrow>
                      (let (r, st') = recordSuccess e artifact i apmResponse st
                       in (migrateReply r, \<lparr>store = st', net = [auth, request]\<rparr>)))))"

text \<open>
  \<open>POST /api/migrate\<close> with valid credentials. \<open>Promise.all\<close> over the async callbacks
  starts every task, in the order of the ledger, before any response arrives. A task
  runs in three stretches, between which it waits for the network: up to the token
  request, from the token response to the creation request, and from the creation
  response to its end. A task that is over carries its entry of the \<open>results\<close> array.
\<close>

datatype batch_result = Success nat | Failure nat string

definition failTask :: "env \<Rightarrow> artifact \<Rightarrow> error \<Rightarrow> world \<Rightarrow> batch_result \<times> world" where
  "failTask e a err w =
     (Failure (a_id a) (message err),
      w\<lparr>store := snd (recordFailure e a (a_id a) 0 err (store w))\<rparr>)"

definition startTask ::
  "env \<Rightarrow> credentials \<Rightarrow> artifact \<Rightarrow> world \<Rightarrow> (batch_result + artifact) \<times> world" where
  "startTask e creds a w =
     (if \<not> truthy (a_transformedData a)
      then (let (r, w') = failTask e a (Err ''Missing transformed data'') w in (Inl r, w'))
      else (Inr a, w\<lparr>net := net w @ [AuthCall (a_id a) (clientId creds) (clientSecret creds)]\<rparr>))"

definition onAuth ::
  "env \<Rightarrow> batch_result + artifact \<Rightarrow> world \<Rightarrow> (batch_result + artifact \<times> string) \<times> world" where
  "onAuth e t w =
     (case t of
        Inl r \<Rightarrow> (Inl r, w)
      | Inr a \<Rightarrow>
          (case loadRequest e a of
             Inl err \<Rightarrow> (let (r, w') = failTask e a err w in (Inl r, w'))
           | Inr (label, request) \<Rightarrow> (Inr (a, label), w\<lparr>net := net w @ [request]\<rparr>)))"

fun batchResult :: "artifact \<Rightarrow> outcome \<Rightarrow> batch_result" where
  "batchResult a (Migrated m u) = Success (a_id a)"
| "batchResult a (Failed msg m) = Failure (a_id a) msg"

definition onPush ::
  "env \<Rightarrow> batch_result + artifact \<times> string \<Rightarrow> world \<Rightarrow> batch_result \<times> world" where
  "onPush e t w =
     (case t of
        Inl r \<Rightarrow> (r, w)
      | Inr (a, label) \<Rightarrow>
          (case createResult label (pushResponse e (a_id a)) of
             Inl err \<Rightarrow> failTask e a err w
           | Inr apmResponse \<Rightarrow>
               (let (r, st') = recordSuccess e a (a_id a) apmResponse (store w)
                in (batchResult a r, w\<lparr>store := st'\<rparr>))))"

text \<open>One stretch of every task of a batch, in the order of the batch.\<close>

fun run_tasks :: "('a \<Rightarrow> 'w \<Rightarrow> 'b \<times> 'w) \<Rightarrow> 'a list \<Rightarrow> 'w \<Rightarrow> 'b list \<times> 'w" where
  "run_tasks f [] w = ([], w)"
| "run_tasks f (x # xs) w =
     (let (y, w1) = f x w; (ys, w2) = run_tasks f xs w1 in (y # ys, w2))"

text \<open>
  The responses are taken to arrive in the order of their requests: all token
  responses, then all creation responses.
\<close>

definition migrateAll :: "env \<Rightarrow> credentials \<Rightarrow> storage \<Rightarrow> batch_result list \<times> world" where
  "migrateAll e creds st =
     (let pendingArtifacts = getArtifactsByStatus ''pending'' st;
          (ts1, w1) = run_tasks (startTask e creds) pendingArtifacts \<lparr>store = st, net = []\<rparr>;
          (ts2, w2) = run_tasks (onAuth e) ts1 w1
      in run_tasks (onPush e) ts2 w2)"

text \<open>The artifacts for which a creation request was issued, in the order of the requests.\<close>

fun pushOrder :: "call list \<Rightarrow> nat list" where
  "pushOrder [] = []"
| "pushOrder (PushCall i url token body # cs) = i # pushOrder cs"
| "pushOrder (AuthCall i cid secret # cs) = pushOrder cs"

fun authOrder :: "call list \<Rightarrow> nat list" where
  "authOrder [] = []"
| "authOrder (AuthCall i cid secret # cs) = i # authOrder cs"
| "authOrder (PushCall i url token body # cs) = authOrder cs"

text \<open>
  The condition under which the task of a pending artifact issues its creation
  request: it has transformed data, the token request succeeds, its type is one of the
  six of \<open>load\<close>, and the transformed data has the key of that type.
\<close>

definition pushable :: "env \<Rightarrow> artifact \<Rightarrow> bool" where
  "pushable e a = (truthy (a_transformedData a) \<and> \<not> isl (loadRequest e a))"

text \<open>\<open>POST /api/transform/:id\<close> with a numeric id.\<close>

datatype transform_reply = TNotFound404 | TOk200 "artifact option" | TError500 string

definition transformOne :: "env \<Rightarrow> nat \<Rightarrow> storage \<Rightarrow> transform_reply \<times> storage" where
  "transformOne e i st =
     (case getArtifact i st of
        None \<Rightarrow> (TNotFound404, st)
      | Some artifact \<Rightarrow>
          (case transform (isoNow e i) (a_originalData artifact) of
             Inl err \<Rightarrow> (TError500 (''Error transforming artifact: '' @ message err), st)
           | Inr transformed \<Rightarrow>
               (let (updated, st') = updateArtifact (dateNow e i 0) i
                      (no_updates\<lparr>u_transformedData := Some transformed,
                                  u_status := Some ''pending''\<rparr>) st
                in (TOk200 updated, st'))))"

text \<open>
  \<open>POST /api/transform\<close>: every artifact with status \<open>new\<close>; the reply counts them all.
  Each task writes only to the row of its own artifact.
\<close>

definition transformTask :: "env \<Rightarrow> artifact \<Rightarrow> storage \<Rightarrow> artifact option \<times> storage" where
  "transformTask e a st =
     (case transform (isoNow e (a_id a)) (a_originalData a) of
        Inr transformed \<Rightarrow>
          updateArtifact (dateNow e (a_id a) 0) (a_id a)
            (no_updates\<lparr>u_transformedData := Some transformed, u_status := Some ''pending''\<rparr>) st
      | Inl err \<Rightarrow>
          updateArtifact (dateNow e (a_id a) 0) (a_id a)
            (no_updates\<lparr>u_status := Some ''error''\<rparr>) st)"

definition transformAll :: "env \<Rightarrow> storage \<Rightarrow> nat \<times> storage" where
  "transformAll e st =
     (let newArtifacts = getArtifactsByStatus ''new'' st;
          (results, st') = run_tasks (transformTask e) newArtifacts st
      in (length results, st'))"

text \<open>
  A ledger as \<open>MemStorage\<close> keeps it: a row is stored under its own id, once, and the
  migration counter is above every stored migration id.
\<close>

definition wf_storage :: "storage \<Rightarrow> bool" where
  "wf_storage st =
     (distinct (map fst (artifacts st))
      \<and> list_all (\<lambda>(k, a). a_id a = k) (artifacts st)
      \<and> list_all (\<lambda>(k, m). k < migrationId st) (migrations st))"


section \<open>The reference graph of the specification\<close>





section \<open>One task of a batch, by itself\<close>

text \<open>
  What a task returns after each stretch, which requests it issues and what it writes
  do not depend on the other tasks. These functions give each of them from the
  artifact and the environment alone.
\<close>

definition startResult :: "artifact \<Rightarrow> batch_result + artifact" where
  "startResult a = (if \<not> truthy (a_transformedData a)
      then Inl (Failure (a_id a) ''Missing transformed data'') else Inr a)"

definition authResult :: "env \<Rightarrow> batch_result + artifact \<Rightarrow> batch_result + artifact \<times> string" where
  "authResult e t =
     (case t of
        Inl r \<Rightarrow> Inl r
      | Inr a \<Rightarrow>
          (case loadRequest e a of
             Inl err \<Rightarrow> Inl (Failure (a_id a) (message err))
           | Inr (label, request) \<Rightarrow> Inr (a, label)))"

definition authRequests :: "env \<Rightarrow> batch_result + artifact \<Rightarrow> call list" where
  "authRequests e t =
     (case t of
        Inl r \<Rightarrow> []
      | Inr a \<Rightarrow> (case loadRequest e a of Inl err \<Rightarrow> [] | Inr (label, request) \<Rightarrow> [request]))"

definition pushResult :: "env \<Rightarrow> batch_result + artifact \<times> string \<Rightarrow> batch_result" where
  "pushResult e t =
     (case t of
        Inl r \<Rightarrow> r
      | Inr (a, label) \<Rightarrow>
          (case createResult label (pushResponse e (a_id a)) of
             Inl err \<Rightarrow> Failure (a_id a) (message err)
           | Inr apmResponse \<Rightarrow>
               (case read_prop apmResponse ''id'' of
                  Inl err \<Rightarrow> Failure (a_id a) (message err)
                | Inr apmId \<Rightarrow> Success (a_id a))))"

definition taskResult :: "env \<Rightarrow> artifact \<Rightarrow> batch_result" where
  "taskResult e a = pushResult e (authResult e (startResult a))"

text \<open>The writes of the three stretches of the task of an artifact.\<close>

definition storeStart :: "env \<Rightarrow> artifact \<Rightarrow> storage \<Rightarrow> storage" where
  "storeStart e a st =
     (if \<not> truthy (a_transformedData a)
      then snd (recordFailure e a (a_id a) 0 (Err ''Missing transformed data'') st) else st)"

definition storeAuth :: "env \<Rightarrow> artifact \<Rightarrow> storage \<Rightarrow> storage" where
  "storeAuth e a st =
     (if \<not> truthy (a_transformedData a) then st
      else (case loadRequest e a of
              Inl err \<Rightarrow> snd (recordFailure e a (a_id a) 0 err st)
            | Inr lr \<Rightarrow> st))"

definition storePush :: "env \<Rightarrow> artifact \<Rightarrow> storage \<Rightarrow> storage" where
  "storePush e a st =
     (if \<not> truthy (a_transformedData a) then st
      else (case loadRequest e a of
              Inl err \<Rightarrow> st
            | Inr (label, request) \<Rightarrow>
                (case createResult label (pushResponse e (a_id a)) of
                   Inl err \<Rightarrow> snd (recordFailure e a (a_id a) 0 err st)
                 | Inr apmResponse \<Rightarrow> snd (recordSuccess e a (a_id a) apmResponse st))))"

text \<open>
  What is observed of an artifact in the ledger: its status, and the statuses of its
  migration records in the order of their creation.
\<close>

definition observe :: "nat \<Rightarrow> storage \<Rightarrow> string option \<times> string list" where
  "observe j st = (map_option a_status (getArtifact j st),
                   map m_status (getMigrationsByArtifactId j st))"

text \<open>A new status for the row, if there is one, and more migration records.\<close>

definition effect ::
  "string \<Rightarrow> string list \<Rightarrow> string option \<times> string list \<Rightarrow> string option \<times> string list" where
  "effect s ms ob = (map_option (\<lambda>_. s) (fst ob), snd ob @ ms)"

text \<open>
  The statuses of the migration records that the task of an artifact appends, and the
  status in which it leaves the artifact.
\<close>

definition taskWrites :: "env \<Rightarrow> artifact \<Rightarrow> string list" where
  "taskWrites e a =
     (if \<not> truthy (a_transformedData a) then [''failed'']
      else (case loadRequest e a of
              Inl err \<Rightarrow> [''failed'']
            | Inr (label, request) \<Rightarrow>
                (case createResult label (pushResponse e (a_id a)) of
                   Inl err \<Rightarrow> [''failed'']
                 | Inr apmResponse \<Rightarrow>
                     if nullish apmResponse then [''success'', ''failed''] else [''success''])))"

definition taskStatus :: "env \<Rightarrow> artifact \<Rightarrow> string" where
  "taskStatus e a =
     (if \<not> truthy (a_transformedData a) then ''error''
      else (case loadRequest e a of
              Inl err \<Rightarrow> ''error''
            | Inr (label, request) \<Rightarrow>
                (case createResult label (pushResponse e (a_id a)) of
                   Inl err \<Rightarrow> ''error''
                 | Inr apmResponse \<Rightarrow>
                     if nullish apmResponse then ''error'' else ''migrated'')))"

definition effStart ::
  "artifact \<Rightarrow> string option \<times> string list \<Rightarrow> string option \<times> string list" where
  "effStart a ob = (if \<not> truthy (a_transformedData a) then effect ''error'' [''failed''] ob else ob)"

definition effAuth ::
  "env \<Rightarrow> artifact \<Rightarrow> string option \<times> string list \<Rightarrow> string option \<times> string list" where
  "effAuth e a ob =
     (if \<not> truthy (a_transformedData a) then ob
      else (case loadRequest e a of Inl err \<Rightarrow> effect ''error'' [''failed''] ob | Inr lr \<Rightarrow> ob))"

definition effPush ::
  "env \<Rightarrow> artifact \<Rightarrow> string option \<times> string list \<Rightarrow> string option \<times> string list" where
  "effPush e a ob =
     (if \<not> truthy (a_transformedData a) then ob
      else (case loadRequest e a of
              Inl err \<Rightarrow> ob
            | Inr (label, request) \<Rightarrow>
                (case createResult label (pushResponse e (a_id a)) of
                   Inl err \<Rightarrow> effect ''error'' [''failed''] ob
                 | Inr r \<Rightarrow>
                     if nullish r then effect ''error'' [''success'', ''failed''] ob
                     else effect ''migrated'' [''success''] ob)))"

text \<open>
  A write \<open>h a\<close> is local to the artifact \<open>a\<close>: it keeps the ledger well-formed, leaves
  every other artifact and its migration records as they are, and what is observed of
  \<open>a\<close> changes by \<open>eff a\<close>.
\<close>

definition local_step ::
  "(artifact \<Rightarrow> storage \<Rightarrow> storage) \<Rightarrow>
   (artifact \<Rightarrow> string option \<times> string list \<Rightarrow> string option \<times> string list) \<Rightarrow> bool" where
  "local_step h eff = (\<forall>a st. wf_storage st \<longrightarrow>
      wf_storage (h a st)
      \<and> (\<forall>j. j \<noteq> a_id a \<longrightarrow> getArtifact j (h a st) = getArtifact j st
             \<and> getMigrationsByArtifactId j (h a st) = getMigrationsByArtifactId j st)
      \<and> observe (a_id a) (h a st) = eff a (observe (a_id a) st))"


text \<open>The row of an artifact after its transformation task.\<close>

definition transformedRow :: "env \<Rightarrow> artifact \<Rightarrow> artifact" where
  "transformedRow e a =
     (case transform (isoNow e (a_id a)) (a_originalData a) of
        Inr transformed \<Rightarrow>
          a\<lparr>a_transformedData := transformed, a_status := ''pending'',
            a_lastModified := dateNow e (a_id a) 0\<rparr>
      | Inl err \<Rightarrow> a\<lparr>a_status := ''error'', a_lastModified := dateNow e (a_id a) 0\<rparr>)"



section \<open>Example data\<close>

text \<open>
  Source documents as \<open>xml2js\<close> parses them (child elements are arrays): a partner
  \<open>P1\<close> that lists the endpoint \<open>E1\<close>, the endpoint \<open>E1\<close> with and without a reference
  back to the partner, and a certificate.
\<close>

definition partner_doc :: json where
  "partner_doc = JObj [(''Partner'', JObj [
     (''id'', JArr [JStr ''P1'']),
     (''name'', JArr [JStr ''Acme'']),
     (''Identifiers'', JArr [JObj [(''Identifier'', JArr [
        JObj [(''type'', JArr [JStr ''DUNS'']), (''value'', JArr [JStr ''123456789''])],
        JObj [(''type'', JArr [JStr ''GLN'']), (''value'', JArr [JStr ''0012345000058''])]])]]),
     (''Endpoints'', JArr [JObj [(''Endpoint'', JArr [JObj [(''id'', JArr [JStr ''E1''])]])]])])]"

definition endpoint_doc :: json where
  "endpoint_doc = JObj [(''Endpoint'', JObj [
     (''id'', JArr [JStr ''E1'']),
     (''name'', JArr [JStr ''Acme AS2'']),
     (''type'', JArr [JStr ''AS2'']),
     (''url'', JArr [JStr ''https://as2.acme.example/in''])])]"

definition endpoint_back_doc :: json where
  "endpoint_back_doc = JObj [(''Endpoint'', JObj [
     (''id'', JArr [JStr ''E1'']),
     (''name'', JArr [JStr ''Acme AS2'']),
     (''type'', JArr [JStr ''AS2'']),
     (''url'', JArr [JStr ''https://as2.acme.example/in'']),
     (''partnerId'', JArr [JStr ''P1''])])]"

definition certificate_doc :: json where
  "certificate_doc = JObj [(''Certificate'', JObj [
     (''id'', JArr [JStr ''C1'']),
     (''name'', JArr [JStr ''Acme signing''])])]"

text \<open>A row as the extraction route creates it.\<close>

definition new_row :: "nat \<Rightarrow> string \<Rightarrow> string \<Rightarrow> string \<Rightarrow> json \<Rightarrow> artifact" where
  "new_row i nm oid ty doc = \<lparr> a_id = i, a_name = nm, a_originalId = oid,
     a_type = ty, a_status = ''new'', a_originalData = doc,
     a_transformedData = JUndefined, a_apmId = JUndefined,
     a_lastModified = 10, a_createdAt = 10, a_extractionId = 1 \<rparr>"

definition fresh_row :: artifact where
  "fresh_row = new_row 1 ''Acme'' ''P1'' ''trading_partner'' partner_doc"

definition fresh_ledger :: storage where
  "fresh_ledger = \<lparr> artifacts = [(1, fresh_row)], migrations = [], artifactId = 2,
     migrationId = 1 \<rparr>"

text \<open>
  Two extractions of three artifacts, the partner stored before the endpoint that it
  lists: in the first the references are acyclic, in the second partner and endpoint
  reference each other.
\<close>

definition extracted_acyclic :: storage where
  "extracted_acyclic = \<lparr> artifacts = [
       (1, fresh_row),
       (2, new_row 2 ''Acme AS2'' ''E1'' ''endpoint'' endpoint_doc),
       (3, new_row 3 ''Acme signing'' ''C1'' ''certificate'' certificate_doc)],
     migrations = [], artifactId = 4, migrationId = 1 \<rparr>"

definition extracted_cyclic :: storage where
  "extracted_cyclic = \<lparr> artifacts = [
       (1, fresh_row),
       (2, new_row 2 ''Acme AS2'' ''E1'' ''endpoint'' endpoint_back_doc),
       (3, new_row 3 ''Acme signing'' ''C1'' ''certificate'' certificate_doc)],
     migrations = [], artifactId = 4, migrationId = 1 \<rparr>"

text \<open>
  A target system that accepts every request, one that refuses the credentials, and
  one that answers a creation with the JSON text \<open>null\<close>; and a clock.
\<close>

definition target_ok :: env where
  "target_ok = \<lparr>
     authResponse = (\<lambda>i. Http 200 (Inr []) (Inr (JObj [(''access_token'', JStr ''tok'')]))),
     pushResponse = (\<lambda>i. Http 201 (Inr []) (Inr (JObj [(''id'', JStr ''apm-1'')]))),
     dateNow = (\<lambda>i k. 1000 + k),
     isoNow = (\<lambda>i n. ''2025-05-22T10:00:00.000Z'') \<rparr>"

definition target_unauthorized :: env where
  "target_unauthorized = target_ok\<lparr>
     authResponse := (\<lambda>i. Http 401 (Inr ''invalid_client'') (Inl (Err ''Unexpected token''))) \<rparr>"

definition target_null :: env where
  "target_null = target_ok\<lparr> pushResponse := (\<lambda>i. Http 200 (Inr ''null'') (Inr JNull)) \<rparr>"


definition operator :: credentials where
  "operator = \<lparr> clientId = ''client'', clientSecret = ''secret'' \<rparr>"

text \<open>The two extractions after \<open>POST /api/transform\<close>.\<close>

definition pending_acyclic :: storage where
  "pending_acyclic = extracted_acyclic\<lparr>artifacts :=
     map (\<lambda>(k, a). (k, transformedRow target_ok a)) (artifacts extracted_acyclic)\<rparr>"

definition pending_cyclic :: storage where
  "pending_cyclic = extracted_cyclic\<lparr>artifacts :=
     map (\<lambda>(k, a). (k, transformedRow target_ok a)) (artifacts extracted_cyclic)\<rparr>"

text \<open>The partner alone, transformed; and the same after a migration that failed.\<close>

definition pending_partner :: storage where
  "pending_partner = fresh_ledger\<lparr>artifacts := [(1, transformedRow target_ok fresh_row)]\<rparr>"

definition errored_ledger :: storage where
  "errored_ledger = \<lparr>
     artifacts = [(1, (transformedRow target_ok fresh_row)\<lparr>a_status := ''error''\<rparr>)],
     migrations = [(1, \<lparr> m_id = 1, m_artifactId = 1, m_timestamp = 1000, m_status = ''failed'',
                         m_apmResponse = JUndefined,
                         m_errorMessage = Some ''Failed to create partner in APM: fetch failed'' \<rparr>)],
     artifactId = 2, migrationId = 2 \<rparr>"

text \<open>A document that no mapping accepts, stored as a new artifact.\<close>

definition broken_ledger :: storage where
  "broken_ledger = \<lparr> artifacts = [(1, new_row 1 ''Empty'' ''X1'' ''other'' (JObj []))],
     migrations = [], artifactId = 2, migrationId = 1 \<rparr>"


section \<open>The ledger operations and the stretches of a batch\<close>

lemma update_fresh: "k \<notin> fst ` set al \<Longrightarrow> AList.update k v al = al @ [(k, v)]"
  by (induction al) auto

lemma createMigration_artifacts [simp]:
  "artifacts (snd (createMigration im st)) = artifacts st"
  by (simp add: createMigration_def Let_def)

lemma createMigration_migrations:
  assumes "wf_storage st"
  shows "migrations (snd (createMigration im st))
     = migrations st @ [(migrationId st, fst (createMigration im st))]"
proof -
  have "migrationId st \<notin> fst ` set (migrations st)"
    using assms by (auto simp: wf_storage_def list_all_iff)
  then show ?thesis
    by (simp add: createMigration_def Let_def update_fresh)
qed

lemma createMigration_fst:
  "m_artifactId (fst (createMigration im st)) = im_artifactId im"
  "m_status (fst (createMigration im st)) = im_status im"
  by (simp_all add: createMigration_def Let_def)

lemma createMigration_wf:
  assumes "wf_storage st"
  shows "wf_storage (snd (createMigration im st))"
  using assms createMigration_migrations [OF assms, of im]
  by (auto simp: wf_storage_def list_all_iff createMigration_def Let_def)

lemma createMigration_attempts:
  assumes "wf_storage st"
  shows "getMigrationsByArtifactId j (snd (createMigration im st))
     = getMigrationsByArtifactId j st
       @ (if im_artifactId im = j then [fst (createMigration im st)] else [])"
  by (simp add: getMigrationsByArtifactId_def createMigration_migrations [OF assms]
      createMigration_fst)

lemma updateArtifact_migrations [simp]:
  "migrations (snd (updateArtifact now i u st)) = migrations st"
  "migrationId (snd (updateArtifact now i u st)) = migrationId st"
  by (simp_all add: updateArtifact_def Let_def split: option.splits)

lemma updateArtifact_keys [simp]:
  "map fst (artifacts (snd (updateArtifact now i u st))) = map fst (artifacts st)"
proof (cases "map_of (artifacts st) i")
  case None
  then show ?thesis by (simp add: updateArtifact_def)
next
  case (Some a)
  then have "i \<in> fst ` set (artifacts st)"
    by (metis domI dom_map_of_conv_image_fst)
  with Some show ?thesis
    by (simp add: updateArtifact_def Let_def update_keys)
qed

lemma updateArtifact_get:
  "getArtifact j (snd (updateArtifact now i u st))
     = (if j = i then map_option (\<lambda>r. spread_updates r u now) (getArtifact i st)
        else getArtifact j st)"
  by (auto simp: getArtifact_def updateArtifact_def Let_def update_conv' split: option.splits)

lemma updateArtifact_attempts [simp]:
  "getMigrationsByArtifactId j (snd (updateArtifact now i u st)) = getMigrationsByArtifactId j st"
  by (simp add: getMigrationsByArtifactId_def)

lemma set_update_subset:
  "(k, v) \<in> set (AList.update i x al) \<Longrightarrow> (k, v) \<in> set al \<or> (k, v) = (i, x)"
  by (induction al) (auto split: if_splits)

lemma updateArtifact_wf:
  assumes "wf_storage st"
  shows "wf_storage (snd (updateArtifact now i u st))"
proof (cases "map_of (artifacts st) i")
  case None
  with assms show ?thesis by (simp add: updateArtifact_def)
next
  case (Some a)
  then have mem: "(i, a) \<in> set (artifacts st)" by (rule map_of_SomeD)
  with assms have ida: "a_id a = i" by (auto simp: wf_storage_def list_all_iff)
  have keys: "map fst (artifacts (snd (updateArtifact now i u st))) = map fst (artifacts st)"
    by simp
  have rows: "list_all (\<lambda>(k, a). a_id a = k) (AList.update i (spread_updates a u now) (artifacts st))"
    using assms ida
    by (auto simp: list_all_iff wf_storage_def spread_updates_def dest!: set_update_subset)
  show ?thesis
    using assms Some keys rows
    by (simp add: wf_storage_def updateArtifact_def Let_def)
qed

lemma createMigration_get [simp]:
  "getArtifact j (snd (createMigration im st)) = getArtifact j st"
  by (simp add: getArtifact_def)

lemma recordFailure_wf:
  assumes "wf_storage st"
  shows "wf_storage (snd (recordFailure e a i k err st))"
  by (simp add: recordFailure_def split_beta Let_def updateArtifact_wf createMigration_wf assms)

lemma recordFailure_keys:
  "map fst (artifacts (snd (recordFailure e a i k err st))) = map fst (artifacts st)"
  by (simp add: recordFailure_def split_beta Let_def)

lemma recordFailure_other:
  assumes "wf_storage st" "j \<noteq> i" "j \<noteq> a_id a"
  shows "getArtifact j (snd (recordFailure e a i k err st)) = getArtifact j st"
    and "getMigrationsByArtifactId j (snd (recordFailure e a i k err st))
           = getMigrationsByArtifactId j st"
  using assms
  by (simp_all add: recordFailure_def split_beta Let_def updateArtifact_get
      createMigration_attempts)

lemma recordFailure_observe:
  assumes "wf_storage st"
  shows "observe (a_id a) (snd (recordFailure e a (a_id a) k err st))
           = effect ''error'' [''failed''] (observe (a_id a) st)"
  using assms
  by (simp add: observe_def effect_def recordFailure_def split_beta Let_def updateArtifact_get
      createMigration_attempts createMigration_fst option.map_comp comp_def
      spread_updates_def no_updates_def)

lemma recordSuccess_wf:
  assumes "wf_storage st"
  shows "wf_storage (snd (recordSuccess e a i r st))"
  by (simp add: recordSuccess_def split_beta Let_def updateArtifact_wf createMigration_wf
      recordFailure_wf assms split: sum.splits)

lemma recordSuccess_keys:
  "map fst (artifacts (snd (recordSuccess e a i r st))) = map fst (artifacts st)"
  by (simp add: recordSuccess_def split_beta Let_def recordFailure_keys split: sum.splits)

lemma recordSuccess_other:
  assumes "wf_storage st" "j \<noteq> i" "j \<noteq> a_id a"
  shows "getArtifact j (snd (recordSuccess e a i r st)) = getArtifact j st"
    and "getMigrationsByArtifactId j (snd (recordSuccess e a i r st))
           = getMigrationsByArtifactId j st"
  using assms
  by (simp_all add: recordSuccess_def split_beta Let_def updateArtifact_get
      createMigration_attempts recordFailure_other createMigration_wf
      split: sum.splits)

lemma recordSuccess_observe:
  assumes "wf_storage st"
  shows "observe (a_id a) (snd (recordSuccess e a (a_id a) r st))
           = (if nullish r then effect ''error'' [''success'', ''failed''] (observe (a_id a) st)
              else effect ''migrated'' [''success''] (observe (a_id a) st))"
proof (cases "nullish r")
  case True
  then have rp: "read_prop r ''id'' = Inl (cannot_read r ''id'')" by (simp add: read_prop_def)
  let ?st1 = "snd (createMigration
            \<lparr> im_artifactId = a_id a, im_timestamp = dateNow e (a_id a) 0,
              im_status = ''success'', im_apmResponse = r,
              im_errorMessage = None \<rparr> st)"
  have wf1: "wf_storage ?st1" by (rule createMigration_wf [OF assms])
  have "observe (a_id a) ?st1 = (fst (observe (a_id a) st), snd (observe (a_id a) st) @ [''success''])"
    by (simp add: observe_def createMigration_attempts [OF assms] createMigration_fst)
  then show ?thesis
    using True rp recordFailure_observe [OF wf1, of a e 1 "cannot_read r ''id''"]
    by (simp add: recordSuccess_def split_beta Let_def effect_def)
next
  case False
  then have rp: "read_prop r ''id'' = Inr (get_prop r ''id'')" by (simp add: read_prop_def)
  show ?thesis
    using False rp assms
    by (simp add: observe_def effect_def recordSuccess_def split_beta Let_def updateArtifact_get
      createMigration_attempts createMigration_fst option.map_comp comp_def
      spread_updates_def no_updates_def)
qed

lemma startTask_store: "store (snd (startTask e c a w)) = storeStart e a (store w)"
  by (simp add: startTask_def failTask_def storeStart_def)

lemma onAuth_store:
  "store (snd (onAuth e (startResult a) w)) = storeAuth e a (store w)"
  by (auto simp: onAuth_def storeAuth_def startResult_def failTask_def split: sum.splits)

lemma onPush_store:
  "store (snd (onPush e (authResult e (startResult a)) w)) = storePush e a (store w)"
  by (auto simp: onPush_def storePush_def authResult_def startResult_def failTask_def
      split_beta Let_def split: sum.splits)

lemma observe_cong:
  "getArtifact j st' = getArtifact j st \<Longrightarrow>
   getMigrationsByArtifactId j st' = getMigrationsByArtifactId j st \<Longrightarrow>
   observe j st' = observe j st"
  by (simp add: observe_def)

lemma fold_local:
  assumes step: "local_step h eff"
  shows "wf_storage st \<Longrightarrow> distinct (map a_id as) \<Longrightarrow>
     wf_storage (fold h as st)
     \<and> (\<forall>j. j \<notin> a_id ` set as \<longrightarrow> getArtifact j (fold h as st) = getArtifact j st
             \<and> getMigrationsByArtifactId j (fold h as st) = getMigrationsByArtifactId j st)
     \<and> (\<forall>a \<in> set as. observe (a_id a) (fold h as st) = eff a (observe (a_id a) st))"
proof (induction as arbitrary: st)
  case Nil
  then show ?case by simp
next
  case (Cons x xs)
  let ?st1 = "h x st"
  from step Cons.prems(1) have wf1: "wf_storage ?st1"
    and fr1: "\<And>j. j \<noteq> a_id x \<Longrightarrow> getArtifact j ?st1 = getArtifact j st
                 \<and> getMigrationsByArtifactId j ?st1 = getMigrationsByArtifactId j st"
    and ob1: "observe (a_id x) ?st1 = eff x (observe (a_id x) st)"
    by (auto simp: local_step_def)
  from Cons.prems(2) have dxs: "distinct (map a_id xs)" and nx: "a_id x \<notin> a_id ` set xs"
    by auto
  note IH = Cons.IH [OF wf1 dxs]
  have A: "wf_storage (fold h (x # xs) st)" using IH by simp
  have B: "\<forall>j. j \<notin> a_id ` set (x # xs) \<longrightarrow>
      getArtifact j (fold h (x # xs) st) = getArtifact j st
      \<and> getMigrationsByArtifactId j (fold h (x # xs) st) = getMigrationsByArtifactId j st"
    using IH fr1 by auto
  have C: "\<forall>a \<in> set (x # xs). observe (a_id a) (fold h (x # xs) st) = eff a (observe (a_id a) st)"
  proof
    fix a assume "a \<in> set (x # xs)"
    then consider "a = x" | "a \<in> set xs" "a_id a \<noteq> a_id x"
      using nx by (metis imageI set_ConsD)
    then show "observe (a_id a) (fold h (x # xs) st) = eff a (observe (a_id a) st)"
    proof cases
      case 1
      have "observe (a_id x) (fold h xs ?st1) = observe (a_id x) ?st1"
        using IH nx by (intro observe_cong) auto
      with 1 ob1 show ?thesis by simp
    next
      case 2
      have "observe (a_id a) ?st1 = observe (a_id a) st"
        using fr1 [OF 2(2)] by (intro observe_cong) auto
      with IH 2 show ?thesis by simp
    qed
  qed
  from A B C show ?case by blast
qed

lemma local_step_id: "local_step (\<lambda>a st. st) (\<lambda>a ob. ob)"
  by (simp add: local_step_def)

lemma recordFailure_local:
  assumes "wf_storage st"
  shows "wf_storage (snd (recordFailure e a (a_id a) k err st))
      \<and> (\<forall>j. j \<noteq> a_id a \<longrightarrow>
             getArtifact j (snd (recordFailure e a (a_id a) k err st)) = getArtifact j st
             \<and> getMigrationsByArtifactId j (snd (recordFailure e a (a_id a) k err st))
                 = getMigrationsByArtifactId j st)
      \<and> observe (a_id a) (snd (recordFailure e a (a_id a) k err st))
           = effect ''error'' [''failed''] (observe (a_id a) st)"
  using assms
  by (simp add: recordFailure_wf recordFailure_other recordFailure_observe)

lemma recordSuccess_local:
  assumes "wf_storage st"
  shows "wf_storage (snd (recordSuccess e a (a_id a) r st))
      \<and> (\<forall>j. j \<noteq> a_id a \<longrightarrow>
             getArtifact j (snd (recordSuccess e a (a_id a) r st)) = getArtifact j st
             \<and> getMigrationsByArtifactId j (snd (recordSuccess e a (a_id a) r st))
                 = getMigrationsByArtifactId j st)
      \<and> observe (a_id a) (snd (recordSuccess e a (a_id a) r st))
           = (if nullish r then effect ''error'' [''success'', ''failed''] (observe (a_id a) st)
              else effect ''migrated'' [''success''] (observe (a_id a) st))"
  using assms
  by (simp add: recordSuccess_wf recordSuccess_other recordSuccess_observe)

lemma storeStart_local: "local_step (storeStart e) effStart"
  unfolding local_step_def storeStart_def effStart_def
  using recordFailure_local by simp

lemma storeAuth_local: "local_step (storeAuth e) (effAuth e)"
  unfolding local_step_def storeAuth_def effAuth_def
  using recordFailure_local by (simp split: sum.splits)

lemma storePush_local: "local_step (storePush e) (effPush e)"
  unfolding local_step_def storePush_def effPush_def
  using recordFailure_local recordSuccess_local by (simp split: sum.splits prod.splits)

lemma eff_compose:
  "effPush e a (effAuth e a (effStart a ob)) = effect (taskStatus e a) (taskWrites e a) ob"
  by (simp add: effPush_def effAuth_def effStart_def taskStatus_def taskWrites_def
      split: sum.splits prod.splits)

lemma run_tasks_map: "run_tasks f (map g xs) w = run_tasks (\<lambda>x. f (g x)) xs w"
  by (induction xs arbitrary: w) (auto simp: split_beta Let_def)

lemma run_tasks_fst:
  assumes "\<And>x w. fst (f x w) = g x"
  shows "fst (run_tasks f xs w) = map g xs"
  using assms
  by (induction xs arbitrary: w) (auto simp: split_beta Let_def)

lemma run_tasks_store:
  assumes "\<And>x w. store (snd (f x w)) = h x (store w)"
  shows "store (snd (run_tasks f xs w)) = fold h xs (store w)"
  using assms
  by (induction xs arbitrary: w) (auto simp: split_beta Let_def)

lemma startTask_fst: "fst (startTask e c a w) = startResult a"
  by (simp add: startTask_def failTask_def startResult_def)

lemma onAuth_fst: "fst (onAuth e t w) = authResult e t"
  by (auto simp: onAuth_def authResult_def failTask_def split: sum.splits prod.splits)

lemma migrateAll_store:
  "store (snd (migrateAll e c st))
     = fold (storePush e) (getArtifactsByStatus ''pending'' st)
         (fold (storeAuth e) (getArtifactsByStatus ''pending'' st)
            (fold (storeStart e) (getArtifactsByStatus ''pending'' st) st))"
proof -
  let ?pend = "getArtifactsByStatus ''pending'' st"
  let ?r1 = "run_tasks (startTask e c) ?pend \<lparr>store = st, net = []\<rparr>"
  let ?r2 = "run_tasks (onAuth e) (fst ?r1) (snd ?r1)"
  have t1: "fst ?r1 = map startResult ?pend"
    by (rule run_tasks_fst [OF startTask_fst])
  have s1: "store (snd ?r1) = fold (storeStart e) ?pend st"
    using run_tasks_store [where f = "startTask e c" and h = "storeStart e", OF startTask_store]
    by simp
  have r2: "?r2 = run_tasks (\<lambda>a. onAuth e (startResult a)) ?pend (snd ?r1)"
    by (simp only: t1 run_tasks_map)
  have t2: "fst ?r2 = map (\<lambda>a. authResult e (startResult a)) ?pend"
    unfolding r2 by (rule run_tasks_fst) (rule onAuth_fst)
  have s2: "store (snd ?r2) = fold (storeAuth e) ?pend (store (snd ?r1))"
    unfolding r2 by (rule run_tasks_store) (rule onAuth_store)
  have "run_tasks (onPush e) (fst ?r2) (snd ?r2)
      = run_tasks (\<lambda>a. onPush e (authResult e (startResult a))) ?pend (snd ?r2)"
    by (simp only: t2 run_tasks_map)
  then have "store (snd (run_tasks (onPush e) (fst ?r2) (snd ?r2)))
      = fold (storePush e) ?pend (store (snd ?r2))"
    by (simp only:) (rule run_tasks_store, rule onPush_store)
  then show ?thesis
    by (simp add: migrateAll_def Let_def split_beta s1 s2)
qed

lemma pending_distinct:
  assumes "wf_storage st"
  shows "distinct (map a_id (getArtifactsByStatus s st))"
proof -
  have "map a_id (map snd (artifacts st)) = map fst (artifacts st)"
    using assms by (auto simp: wf_storage_def list_all_iff)
  moreover have "distinct (map fst (artifacts st))"
    using assms by (simp add: wf_storage_def)
  ultimately have "distinct (map a_id (map snd (artifacts st)))"
    by (simp only:)
  then show ?thesis
    unfolding getArtifactsByStatus_def by (rule distinct_map_filter)
qed

lemma pending_row:
  assumes "wf_storage st" "a \<in> set (getArtifactsByStatus s st)"
  shows "getArtifact (a_id a) st = Some a" and "a_status a = s"
proof -
  from assms(2) obtain k where "(k, a) \<in> set (artifacts st)" and st: "a_status a = s"
    by (auto simp: getArtifactsByStatus_def)
  moreover from this assms(1) have "a_id a = k" by (auto simp: wf_storage_def list_all_iff)
  ultimately show "getArtifact (a_id a) st = Some a"
    using assms(1) by (simp add: getArtifact_def wf_storage_def)
  show "a_status a = s" by (rule st)
qed

lemma row_pending:
  assumes "wf_storage st" "getArtifact i st = Some a" "a_status a = s"
  shows "a \<in> set (getArtifactsByStatus s st)" and "a_id a = i"
proof -
  from assms(2) have "(i, a) \<in> set (artifacts st)"
    by (simp add: getArtifact_def map_of_SomeD)
  then show "a \<in> set (getArtifactsByStatus s st)" "a_id a = i"
    using assms(1,3) by (auto simp: getArtifactsByStatus_def wf_storage_def list_all_iff
        intro: rev_image_eqI)
qed

lemma migrateAll_ledger:
  assumes "wf_storage st"
  shows "wf_storage (store (snd (migrateAll e c st)))"
    and "j \<notin> a_id ` set (getArtifactsByStatus ''pending'' st) \<Longrightarrow>
         getArtifact j (store (snd (migrateAll e c st))) = getArtifact j st
         \<and> getMigrationsByArtifactId j (store (snd (migrateAll e c st)))
               = getMigrationsByArtifactId j st"
    and "a \<in> set (getArtifactsByStatus ''pending'' st) \<Longrightarrow>
         observe (a_id a) (store (snd (migrateAll e c st)))
           = effect (taskStatus e a) (taskWrites e a) (observe (a_id a) st)"
proof -
  let ?pend = "getArtifactsByStatus ''pending'' st"
  let ?s1 = "fold (storeStart e) ?pend st"
  let ?s2 = "fold (storeAuth e) ?pend ?s1"
  let ?s3 = "fold (storePush e) ?pend ?s2"
  have d: "distinct (map a_id ?pend)" by (rule pending_distinct [OF assms])
  note f1 = fold_local [OF storeStart_local, OF assms d, of e]
  then have wf1: "wf_storage ?s1" by blast
  note f2 = fold_local [OF storeAuth_local, OF wf1 d, of e]
  then have wf2: "wf_storage ?s2" by blast
  note f3 = fold_local [OF storePush_local, OF wf2 d, of e]
  show "wf_storage (store (snd (migrateAll e c st)))"
    using f3 by (simp add: migrateAll_store)
  show "getArtifact j (store (snd (migrateAll e c st))) = getArtifact j st
         \<and> getMigrationsByArtifactId j (store (snd (migrateAll e c st)))
               = getMigrationsByArtifactId j st"
    if "j \<notin> a_id ` set ?pend"
    using that f1 f2 f3 by (simp add: migrateAll_store)
  show "observe (a_id a) (store (snd (migrateAll e c st)))
           = effect (taskStatus e a) (taskWrites e a) (observe (a_id a) st)"
    if "a \<in> set ?pend"
    using that f1 f2 f3 by (simp add: migrateAll_store eff_compose)
qed

lemma run_tasks_net:
  assumes "\<And>x w. net (snd (f x w)) = net w @ g x"
  shows "net (snd (run_tasks f xs w)) = net w @ concat (map g xs)"
  using assms
  by (induction xs arbitrary: w) (auto simp: split_beta Let_def)

lemma startTask_net:
  "net (snd (startTask e c a w)) = net w @
     (if truthy (a_transformedData a) then [AuthCall (a_id a) (clientId c) (clientSecret c)] else [])"
  by (simp add: startTask_def failTask_def)

lemma onAuth_net: "net (snd (onAuth e t w)) = net w @ authRequests e t"
  by (auto simp: onAuth_def authRequests_def failTask_def split: sum.splits prod.splits)

lemma onPush_fst: "fst (onPush e t w) = pushResult e t"
  by (auto simp: onPush_def pushResult_def failTask_def recordSuccess_def Let_def split_beta
      split: sum.splits prod.splits)

lemma onPush_net: "net (snd (onPush e t w)) = net w @ []"
  by (auto simp: onPush_def failTask_def split_beta Let_def split: sum.splits prod.splits)

lemma migrateAll_results:
  "fst (migrateAll e c st) = map (taskResult e) (getArtifactsByStatus ''pending'' st)"
  by (simp add: migrateAll_def Let_def split_beta run_tasks_fst [where g = "pushResult e", OF onPush_fst]
      run_tasks_fst [where g = "authResult e", OF onAuth_fst]
      run_tasks_fst [where g = "startResult", OF startTask_fst] taskResult_def comp_def)

lemma migrateAll_net:
  "net (snd (migrateAll e c st)) =
     concat (map (\<lambda>a. if truthy (a_transformedData a)
                       then [AuthCall (a_id a) (clientId c) (clientSecret c)] else [])
               (getArtifactsByStatus ''pending'' st))
     @ concat (map (\<lambda>a. authRequests e (startResult a)) (getArtifactsByStatus ''pending'' st))"
  by (simp add: migrateAll_def Let_def split_beta
      run_tasks_net [where f = "onPush e", OF onPush_net]
      run_tasks_net [where f = "onAuth e", OF onAuth_net]
      run_tasks_net [where f = "startTask e c", OF startTask_net]
      run_tasks_fst [where g = "startResult", OF startTask_fst] comp_def)

lemma pushOrder_append: "pushOrder (xs @ ys) = pushOrder xs @ pushOrder ys"
  by (induction xs rule: pushOrder.induct) auto

lemma authOrder_append: "authOrder (xs @ ys) = authOrder xs @ authOrder ys"
  by (induction xs rule: authOrder.induct) auto

lemma loadRequest_call:
  "loadRequest e a = Inr (label, request) \<Longrightarrow> \<exists>url token body. request = PushCall (a_id a) url token body"
  by (auto simp: loadRequest_def bindE_def split: sum.splits option.splits prod.splits)

lemma pushOrder_auths:
  "pushOrder (concat (map (\<lambda>a. if truthy (a_transformedData a)
                       then [AuthCall (a_id a) cid sec] else []) as)) = []"
  by (induction as) auto

lemma authOrder_auths:
  "authOrder (concat (map (\<lambda>a. if truthy (a_transformedData a)
                       then [AuthCall (a_id a) cid sec] else []) as))
   = map a_id (filter (\<lambda>a. truthy (a_transformedData a)) as)"
  by (induction as) auto

lemma pushOrder_requests:
  "pushOrder (concat (map (\<lambda>a. authRequests e (startResult a)) as)) = map a_id (filter (pushable e) as)"
proof (induction as)
  case Nil
  then show ?case by simp
next
  case (Cons a as)
  show ?case
  proof (cases "pushable e a")
    case True
    then obtain label request where lr: "loadRequest e a = Inr (label, request)"
      by (cases "loadRequest e a") (auto simp: pushable_def)
    then obtain url token body where "request = PushCall (a_id a) url token body"
      using loadRequest_call by blast
    with True lr Cons show ?thesis
      by (simp add: pushable_def authRequests_def startResult_def pushOrder_append)
  next
    case False
    with Cons show ?thesis
      by (auto simp: pushable_def authRequests_def startResult_def pushOrder_append
          split: sum.splits)
  qed
qed

lemma authOrder_requests:
  "authOrder (concat (map (\<lambda>a. authRequests e (startResult a)) as)) = []"
proof (induction as)
  case Nil
  then show ?case by simp
next
  case (Cons a as)
  have "authOrder (authRequests e (startResult a)) = []"
    by (auto simp: authRequests_def startResult_def split: sum.splits dest: loadRequest_call)
  with Cons show ?case by (simp add: authOrder_append)
qed


lemma pushOrder_migrateAll:
  "pushOrder (net (snd (migrateAll e creds st)))
     = map a_id (filter (pushable e) (getArtifactsByStatus ''pending'' st))"
  by (simp add: migrateAll_net pushOrder_append pushOrder_auths pushOrder_requests)

lemma authOrder_migrateAll:
  "authOrder (net (snd (migrateAll e creds st)))
     = map a_id (filter (\<lambda>a. truthy (a_transformedData a)) (getArtifactsByStatus ''pending'' st))"
  by (simp add: migrateAll_net authOrder_append authOrder_auths authOrder_requests)





lemma auth_failed_load:
  "isl (getApmToken (authResponse e (a_id a))) \<Longrightarrow> isl (loadRequest e a)"
  by (auto simp: loadRequest_def split: sum.splits)

lemma not_pushable_no_push:
  assumes "\<forall>a \<in> set as. \<not> pushable e a"
  shows "filter (pushable e) as = []"
  using assms by (induction as) auto

text \<open>
  The migration records of a batch, artifact by artifact: the task of a pending
  artifact appends the records of \<open>taskWrites\<close>, which is one record, except for the
  two records after a creation response that is \<open>null\<close>.
\<close>

lemma migrateAll_attempt_records:
  assumes "wf_storage st" "a \<in> set (getArtifactsByStatus ''pending'' st)"
  shows "map m_status (getMigrationsByArtifactId (a_id a) (store (snd (migrateAll e c st))))
     = map m_status (getMigrationsByArtifactId (a_id a) st) @ taskWrites e a"
  using migrateAll_ledger(3) [OF assms, of e c]
  by (simp add: observe_def effect_def)

lemma taskWrites_one:
  assumes "\<And>label r. createResult label (pushResponse e (a_id a)) = Inr r \<Longrightarrow> \<not> nullish r"
  shows "length (taskWrites e a) = 1"
  using assms by (auto simp: taskWrites_def split: sum.splits prod.splits)

section \<open>The transformer: clock, failures and the chosen mapping\<close>















section \<open>The transformation routes\<close>

lemma spread_status:
  "spread_updates a (no_updates\<lparr>u_status := Some s\<rparr>) now = a\<lparr>a_status := s, a_lastModified := now\<rparr>"
  by (simp add: spread_updates_def no_updates_def)

lemma spread_transformed:
  "spread_updates a (no_updates\<lparr>u_transformedData := Some t, u_status := Some s\<rparr>) now
     = a\<lparr>a_transformedData := t, a_status := s, a_lastModified := now\<rparr>"
  by (simp add: spread_updates_def no_updates_def)

lemma transformTask_get:
  assumes "getArtifact (a_id a) st = Some a"
  shows "getArtifact j (snd (transformTask e a st))
     = (if j = a_id a then Some (transformedRow e a) else getArtifact j st)"
  using assms
  by (simp add: transformTask_def transformedRow_def updateArtifact_get spread_status
      spread_transformed split: sum.splits)

lemma transformTask_wf: "wf_storage st \<Longrightarrow> wf_storage (snd (transformTask e a st))"
  by (simp add: transformTask_def updateArtifact_wf split: sum.splits)

lemma transformTask_migrations:
  "getMigrationsByArtifactId j (snd (transformTask e a st)) = getMigrationsByArtifactId j st"
  by (simp add: transformTask_def split: sum.splits)

lemma transform_tasks_rows:
  "distinct (map a_id as) \<Longrightarrow> \<forall>a \<in> set as. getArtifact (a_id a) st = Some a \<Longrightarrow>
   (\<forall>a \<in> set as. getArtifact (a_id a) (snd (run_tasks (transformTask e) as st))
        = Some (transformedRow e a))
   \<and> (\<forall>j. j \<notin> a_id ` set as \<longrightarrow>
        getArtifact j (snd (run_tasks (transformTask e) as st)) = getArtifact j st)"
proof (induction as arbitrary: st)
  case Nil
  then show ?case by simp
next
  case (Cons x xs)
  let ?st1 = "snd (transformTask e x st)"
  from Cons.prems have x: "getArtifact (a_id x) st = Some x"
    and nx: "a_id x \<notin> a_id ` set xs" and d: "distinct (map a_id xs)"
    by auto
  have rows1: "\<forall>a \<in> set xs. getArtifact (a_id a) ?st1 = Some a"
  proof
    fix a assume a: "a \<in> set xs"
    then have "a_id a \<noteq> a_id x" using nx by (metis imageI)
    moreover have "getArtifact (a_id a) st = Some a" using Cons.prems(2) a by simp
    ultimately show "getArtifact (a_id a) ?st1 = Some a"
      by (simp add: transformTask_get [OF x])
  qed
  note IH = Cons.IH [OF d rows1]
  have run: "snd (run_tasks (transformTask e) (x # xs) st) = snd (run_tasks (transformTask e) xs ?st1)"
    by (simp add: split_beta Let_def)
  have A: "\<forall>a \<in> set (x # xs). getArtifact (a_id a) (snd (run_tasks (transformTask e) xs ?st1))
        = Some (transformedRow e a)"
  proof
    fix a assume "a \<in> set (x # xs)"
    then consider "a = x" | "a \<in> set xs" by auto
    then show "getArtifact (a_id a) (snd (run_tasks (transformTask e) xs ?st1))
        = Some (transformedRow e a)"
    proof cases
      case 1
      with IH nx have "getArtifact (a_id a) (snd (run_tasks (transformTask e) xs ?st1))
          = getArtifact (a_id x) ?st1" by simp
      with 1 show ?thesis by (simp add: transformTask_get [OF x])
    next
      case 2
      with IH show ?thesis by simp
    qed
  qed
  have B: "\<forall>j. j \<notin> a_id ` set (x # xs) \<longrightarrow>
        getArtifact j (snd (run_tasks (transformTask e) xs ?st1)) = getArtifact j st"
  proof (intro allI impI)
    fix j assume j: "j \<notin> a_id ` set (x # xs)"
    then have "j \<notin> a_id ` set xs" "j \<noteq> a_id x" by auto
    with IH show "getArtifact j (snd (run_tasks (transformTask e) xs ?st1)) = getArtifact j st"
      by (simp add: transformTask_get [OF x])
  qed
  show ?case
    unfolding run using A B by (rule conjI)
qed

section \<open>The single migration route\<close>

lemma authOrder_migrateOne:
  assumes "getArtifact i st = Some a" "truthy (a_transformedData a)"
  shows "authOrder (net (snd (migrateOne e c i st))) = [a_id a]"
proof (cases "loadRequest e a")
  case (Inl err)
  with assms show ?thesis
    by (simp add: migrateOne_def migrateFailed_def split_beta Let_def)
next
  case (Inr lr)
  then obtain label request where lr: "loadRequest e a = Inr (label, request)"
    by (cases lr) auto
  then obtain url token body where "request = PushCall (a_id a) url token body"
    using loadRequest_call by blast
  with assms lr show ?thesis
    by (simp add: migrateOne_def migrateFailed_def split_beta Let_def split: sum.splits)
qed

section \<open>C1: the order of the pushes of a batch\<close>




section \<open>C2: transformation and the clock\<close>




section \<open>C3: which artifacts are migrated\<close>

text \<open>
  C3, as the code has it. The single route guards on the transformed data, not on the
  status: for an artifact without transformed data it answers 400, issues no request
  and leaves the ledger as it is; for an artifact with transformed data it requests a
  token whatever the status. The batch route takes the artifacts with status \<open>pending\<close>
  only: every other artifact keeps its row and its migration records, and no request
  is issued for it.
\<close>

theorem migrate_guard:
  "(getArtifact i st = Some a \<and> \<not> truthy (a_transformedData a) \<longrightarrow>
      migrateOne e creds i st
        = (BadRequest400 ''Artifact must be transformed before migration'',
           \<lparr>store = st, net = []\<rparr>))
   \<and> (getArtifact i st = Some a \<and> truthy (a_transformedData a) \<longrightarrow>
      authOrder (net (snd (migrateOne e creds i st))) = [a_id a])
   \<and> (wf_storage st \<and> getArtifact i st = Some a \<and> a_status a \<noteq> ''pending'' \<longrightarrow>
      getArtifact i (store (snd (migrateAll e creds st))) = Some a
      \<and> getMigrationsByArtifactId i (store (snd (migrateAll e creds st)))
          = getMigrationsByArtifactId i st
      \<and> i \<notin> set (authOrder (net (snd (migrateAll e creds st))))
      \<and> i \<notin> set (pushOrder (net (snd (migrateAll e creds st)))))"
proof (intro conjI impI)
  assume "getArtifact i st = Some a \<and> \<not> truthy (a_transformedData a)"
  then show "migrateOne e creds i st
        = (BadRequest400 ''Artifact must be transformed before migration'',
           \<lparr>store = st, net = []\<rparr>)"
    by (simp add: migrateOne_def)
next
  assume "getArtifact i st = Some a \<and> truthy (a_transformedData a)"
  then show "authOrder (net (snd (migrateOne e creds i st))) = [a_id a]"
    by (simp add: authOrder_migrateOne)
next
  assume h: "wf_storage st \<and> getArtifact i st = Some a \<and> a_status a \<noteq> ''pending''"
  let ?pend = "getArtifactsByStatus ''pending'' st"
  have out: "i \<notin> a_id ` set ?pend"
  proof
    assume "i \<in> a_id ` set ?pend"
    then obtain b where b: "b \<in> set ?pend" "a_id b = i" by auto
    with h pending_row [of st b "''pending''"] show False by auto
  qed
  from migrateAll_ledger(2) [OF _ out, of e creds] h
  show "getArtifact i (store (snd (migrateAll e creds st))) = Some a"
    and "getMigrationsByArtifactId i (store (snd (migrateAll e creds st)))
          = getMigrationsByArtifactId i st"
    by auto
  from out show "i \<notin> set (authOrder (net (snd (migrateAll e creds st))))"
    by (auto simp: authOrder_migrateAll)
  from out show "i \<notin> set (pushOrder (net (snd (migrateAll e creds st))))"
    by (auto simp: pushOrder_migrateAll)
qed

theorem migrate_guard_witness:
  "getArtifact 1 fresh_ledger = Some fresh_row
   \<and> \<not> truthy (a_transformedData fresh_row)
   \<and> migrateOne target_ok operator 1 fresh_ledger
        = (BadRequest400 ''Artifact must be transformed before migration'',
           \<lparr>store = fresh_ledger, net = []\<rparr>)
   \<and> getArtifact 1 errored_ledger = Some ((transformedRow target_ok fresh_row)\<lparr>a_status := ''error''\<rparr>)
   \<and> truthy (a_transformedData ((transformedRow target_ok fresh_row)\<lparr>a_status := ''error''\<rparr>))
   \<and> authOrder (net (snd (migrateOne target_ok operator 1 errored_ledger))) = [1]
   \<and> wf_storage errored_ledger
   \<and> a_status ((transformedRow target_ok fresh_row)\<lparr>a_status := ''error''\<rparr>) \<noteq> ''pending''
   \<and> getArtifact 1 (store (snd (migrateAll target_ok operator errored_ledger)))
        = Some ((transformedRow target_ok fresh_row)\<lparr>a_status := ''error''\<rparr>)
   \<and> 1 \<notin> set (pushOrder (net (snd (migrateAll target_ok operator errored_ledger))))"
proof -
  let ?r = "(transformedRow target_ok fresh_row)\<lparr>a_status := ''error''\<rparr>"
  have a: "getArtifact 1 fresh_ledger = Some fresh_row"
    by (simp add: getArtifact_def fresh_ledger_def)
  have b: "\<not> truthy (a_transformedData fresh_row)"
    by (simp add: fresh_row_def new_row_def)
  have c: "getArtifact 1 errored_ledger = Some ?r"
    by (simp add: getArtifact_def errored_ledger_def)
  have d: "truthy (a_transformedData ?r)"
    by code_simp
  have i: "a_id ?r = 1"
    by code_simp
  have w: "wf_storage errored_ledger"
    by code_simp
  have s: "a_status ?r \<noteq> ''pending''"
    by simp
  from a b c d i w s
    migrate_guard [of 1 fresh_ledger fresh_row target_ok operator]
    migrate_guard [of 1 errored_ledger ?r target_ok operator]
  show ?thesis by simp
qed

text \<open>
  C3 as stated fails: the single route migrates an artifact whose status is \<open>error\<close>.
  A creation request is issued, a migration record is appended and the status becomes
  \<open>migrated\<close>.
\<close>

theorem migrateOne_status_counterexample:
  "map_option a_status (getArtifact 1 errored_ledger) = Some ''error''
   \<and> pushOrder (net (snd (migrateOne target_ok operator 1 errored_ledger))) = [1]
   \<and> map m_status (getMigrationsByArtifactId 1 (store (snd (migrateOne target_ok operator 1 errored_ledger))))
      = [''failed'', ''success'']
   \<and> map_option a_status (getArtifact 1 (store (snd (migrateOne target_ok operator 1 errored_ledger))))
      = Some ''migrated''"
  by code_simp

section \<open>C4: reference cycles in a batch\<close>




section \<open>C5: a batch whose authentication fails\<close>

text \<open>
  C5, as the code has it. Each task of a batch authenticates for itself. When the
  token request fails for every pending artifact of a well-formed ledger, no creation
  request is issued, and every pending artifact is recorded as failed: its status
  becomes \<open>error\<close>, one \<open>failed\<close> migration record is appended for it, and the reply
  holds one failure entry per artifact, in the order of the batch.
\<close>

theorem migrateAll_auth_failure:
  assumes "wf_storage st"
    and "\<forall>a \<in> set (getArtifactsByStatus ''pending'' st).
           isl (getApmToken (authResponse e (a_id a)))"
  shows "pushOrder (net (snd (migrateAll e creds st))) = []
     \<and> (\<forall>a \<in> set (getArtifactsByStatus ''pending'' st).
          observe (a_id a) (store (snd (migrateAll e creds st)))
            = (Some ''error'', snd (observe (a_id a) st) @ [''failed'']))
     \<and> list_all2 (\<lambda>a r. \<exists>msg. r = Failure (a_id a) msg)
          (getArtifactsByStatus ''pending'' st) (fst (migrateAll e creds st))"
proof (intro conjI ballI)
  let ?pend = "getArtifactsByStatus ''pending'' st"
  have load: "isl (loadRequest e a)" if "a \<in> set ?pend" for a
    using that assms(2) by (simp add: auth_failed_load)
  then have "\<forall>a \<in> set ?pend. \<not> pushable e a"
    by (simp add: pushable_def)
  then show "pushOrder (net (snd (migrateAll e creds st))) = []"
    by (simp add: pushOrder_migrateAll not_pushable_no_push)
  show "observe (a_id a) (store (snd (migrateAll e creds st)))
            = (Some ''error'', snd (observe (a_id a) st) @ [''failed''])"
    if a: "a \<in> set ?pend" for a
  proof -
    have "taskStatus e a = ''error''" "taskWrites e a = [''failed'']"
      using load [OF a] by (auto simp: taskStatus_def taskWrites_def split: sum.splits)
    moreover have "fst (observe (a_id a) st) = Some ''pending''"
      using pending_row [OF assms(1) a] by (simp add: observe_def)
    ultimately show ?thesis
      using migrateAll_ledger(3) [OF assms(1) a, of e creds] by (simp add: effect_def)
  qed
  have "\<exists>msg. taskResult e a = Failure (a_id a) msg" if "a \<in> set ?pend" for a
    using load [OF that]
    by (auto simp: taskResult_def pushResult_def authResult_def startResult_def
        split: sum.splits)
  then show "list_all2 (\<lambda>a r. \<exists>msg. r = Failure (a_id a) msg) ?pend (fst (migrateAll e creds st))"
    by (simp add: migrateAll_results list_all2_map2 list_all2_same)
qed

theorem migrateAll_auth_failure_witness:
  "wf_storage pending_partner
   \<and> map (\<lambda>a. isl (getApmToken (authResponse target_unauthorized (a_id a))))
         (getArtifactsByStatus ''pending'' pending_partner) = [True]
   \<and> pushOrder (net (snd (migrateAll target_unauthorized operator pending_partner))) = []
   \<and> observe 1 (store (snd (migrateAll target_unauthorized operator pending_partner)))
        = (Some ''error'', [''failed''])"
proof -
  have wf: "wf_storage pending_partner"
    by code_simp
  have auths: "map (\<lambda>a. isl (getApmToken (authResponse target_unauthorized (a_id a))))
         (getArtifactsByStatus ''pending'' pending_partner) = [True]"
    by code_simp
  then have auth: "\<forall>a \<in> set (getArtifactsByStatus ''pending'' pending_partner).
         isl (getApmToken (authResponse target_unauthorized (a_id a)))"
    by (cases "getArtifactsByStatus ''pending'' pending_partner") auto
  have row: "transformedRow target_ok fresh_row \<in> set (getArtifactsByStatus ''pending'' pending_partner)"
    by code_simp
  have id: "a_id (transformedRow target_ok fresh_row) = 1"
    by code_simp
  have ob: "snd (observe 1 pending_partner) = []"
    by code_simp
  from migrateAll_auth_failure [OF wf auth, of operator] row id ob
  have "pushOrder (net (snd (migrateAll target_unauthorized operator pending_partner))) = []"
    and "observe 1 (store (snd (migrateAll target_unauthorized operator pending_partner)))
        = (Some ''error'', [''failed''])"
    by force+
  with wf auths show ?thesis by blast
qed

text \<open>
  C5 as stated fails: the credentials are refused, and the three pending artifacts end
  with status \<open>error\<close> and a \<open>failed\<close> migration record each; the reply is the list of
  three failures.
\<close>

theorem migrateAll_auth_failure_counterexample:
  "map a_status (getArtifactsByStatus ''pending'' pending_acyclic)
      = [''pending'', ''pending'', ''pending'']
   \<and> observe 1 (store (snd (migrateAll target_unauthorized operator pending_acyclic)))
      = (Some ''error'', [''failed''])
   \<and> observe 2 (store (snd (migrateAll target_unauthorized operator pending_acyclic)))
      = (Some ''error'', [''failed''])
   \<and> observe 3 (store (snd (migrateAll target_unauthorized operator pending_acyclic)))
      = (Some ''error'', [''failed''])
   \<and> fst (migrateAll target_unauthorized operator pending_acyclic)
      = [Failure 1 ''APM loading failed: Failed to authenticate with APM: Failed to get APM token: 401 invalid_client'',
         Failure 2 ''APM loading failed: Failed to authenticate with APM: Failed to get APM token: 401 invalid_client'',
         Failure 3 ''APM loading failed: Failed to authenticate with APM: Failed to get APM token: 401 invalid_client'']"
proof -
  let ?pend = "getArtifactsByStatus ''pending'' pending_acyclic"
  let ?after = "store (snd (migrateAll target_unauthorized operator pending_acyclic))"
  have st: "map a_status ?pend = [''pending'', ''pending'', ''pending'']"
    by code_simp
  have wf: "wf_storage pending_acyclic"
    by code_simp
  have ids: "map a_id ?pend = [1, 2, 3]"
    by code_simp
  have "map (\<lambda>a. observe (a_id a) ?after) ?pend
      = map (\<lambda>a. effect (taskStatus target_unauthorized a) (taskWrites target_unauthorized a)
                    (observe (a_id a) pending_acyclic)) ?pend"
    by (intro map_cong refl migrateAll_ledger(3) wf)
  also have "\<dots> = [(Some ''error'', [''failed'']), (Some ''error'', [''failed'']),
                    (Some ''error'', [''failed''])]"
    by code_simp
  finally have "map (\<lambda>i. observe i ?after) (map a_id ?pend)
      = [(Some ''error'', [''failed'']), (Some ''error'', [''failed'']),
         (Some ''error'', [''failed''])]"
    by (simp add: comp_def)
  then have ob: "observe 1 ?after = (Some ''error'', [''failed''])"
    "observe 2 ?after = (Some ''error'', [''failed''])"
    "observe 3 ?after = (Some ''error'', [''failed''])"
    unfolding ids by simp_all
  have "map (taskResult target_unauthorized) ?pend
      = [Failure 1 ''APM loading failed: Failed to authenticate with APM: Failed to get APM token: 401 invalid_client'',
         Failure 2 ''APM loading failed: Failed to authenticate with APM: Failed to get APM token: 401 invalid_client'',
         Failure 3 ''APM loading failed: Failed to authenticate with APM: Failed to get APM token: 401 invalid_client'']"
    by code_simp
  then have rs: "fst (migrateAll target_unauthorized operator pending_acyclic)
      = [Failure 1 ''APM loading failed: Failed to authenticate with APM: Failed to get APM token: 401 invalid_client'',
         Failure 2 ''APM loading failed: Failed to authenticate with APM: Failed to get APM token: 401 invalid_client'',
         Failure 3 ''APM loading failed: Failed to authenticate with APM: Failed to get APM token: 401 invalid_client'']"
    by (simp only: migrateAll_results)
  from st ob rs show ?thesis by (intro conjI)
qed

section \<open>C6: one migration record per attempted artifact\<close>

text \<open>
  C6 at a failing input. The batch holds one pending artifact, and the target system
  accepts its creation request with status 200 and the JSON body \<open>null\<close>. The route
  writes the \<open>success\<close> record, then reading \<open>apmResponse.id\<close> throws, and the \<open>catch\<close>
  block writes a \<open>failed\<close> record: two records for one attempted artifact, which is
  reported as a failure and left in status \<open>error\<close> although its push succeeded.
\<close>

theorem migrateAll_null_response:
  "map a_id (getArtifactsByStatus ''pending'' pending_partner) = [1]
   \<and> pushOrder (net (snd (migrateAll target_null operator pending_partner))) = [1]
   \<and> createResult ''partner'' (pushResponse target_null 1) = Inr JNull
   \<and> map m_status (getMigrationsByArtifactId 1 (store (snd (migrateAll target_null operator pending_partner))))
      = [''success'', ''failed'']
   \<and> map_option a_status (getArtifact 1 (store (snd (migrateAll target_null operator pending_partner))))
      = Some ''error''
   \<and> fst (migrateAll target_null operator pending_partner)
      = [Failure 1 (message (cannot_read JNull ''id''))]"
  by code_simp

section \<open>C7: token requests of a batch\<close>

text \<open>
  C7, as the code has it. No token is cached or reused: a batch issues one token
  request for each pending artifact that has transformed data, in the order of the
  ledger.
\<close>

theorem migrateAll_auth_calls:
  "authOrder (net (snd (migrateAll e creds st)))
     = map a_id (filter (\<lambda>a. truthy (a_transformedData a)) (getArtifactsByStatus ''pending'' st))"
  by (rule authOrder_migrateAll)

theorem migrateAll_auth_calls_witness:
  "length (authOrder (net (snd (migrateAll target_unauthorized operator pending_cyclic)))) = 3"
proof -
  have "length (map a_id (filter (\<lambda>a. truthy (a_transformedData a))
          (getArtifactsByStatus ''pending'' pending_cyclic))) = 3"
    by code_simp
  then show ?thesis
    by (simp only: migrateAll_auth_calls)
qed

text \<open>C7 as stated fails: a batch of three artifacts issues three token requests.\<close>

theorem migrateAll_token_counterexample:
  "authOrder (net (snd (migrateAll target_ok operator pending_acyclic))) = [1, 2, 3]"
  by code_simp

section \<open>C8: a transformation that fails\<close>

text \<open>
  C8, as the code has it. In the batch route every new artifact of a well-formed ledger
  ends as the row of its own transformation task, whatever happens to the others; when
  its transformation fails that row is the old one with status \<open>error\<close> and a new
  \<open>lastModified\<close>, and no message is stored. The single route returns the message of
  the failure in its 500 reply.
\<close>

theorem transformAll_failure_isolated:
  "(wf_storage st \<and> a \<in> set (getArtifactsByStatus ''new'' st) \<longrightarrow>
      getArtifact (a_id a) (snd (transformAll e st)) = Some (transformedRow e a))
   \<and> (isl (transform (isoNow e (a_id a)) (a_originalData a)) \<longrightarrow>
      transformedRow e a = a\<lparr>a_status := ''error'', a_lastModified := dateNow e (a_id a) 0\<rparr>)
   \<and> (getArtifact i st = Some a \<and> transform (isoNow e i) (a_originalData a) = Inl err \<longrightarrow>
      fst (transformOne e i st) = TError500 (''Error transforming artifact: '' @ message err))"
proof (intro conjI impI)
  assume h: "wf_storage st \<and> a \<in> set (getArtifactsByStatus ''new'' st)"
  let ?new = "getArtifactsByStatus ''new'' st"
  have d: "distinct (map a_id ?new)" using h by (simp add: pending_distinct)
  have rows: "\<forall>a \<in> set ?new. getArtifact (a_id a) st = Some a"
    using h pending_row(1) by blast
  from transform_tasks_rows [OF d rows, of e] h
  show "getArtifact (a_id a) (snd (transformAll e st)) = Some (transformedRow e a)"
    by (simp add: transformAll_def split_beta Let_def)
next
  assume "isl (transform (isoNow e (a_id a)) (a_originalData a))"
  then show "transformedRow e a = a\<lparr>a_status := ''error'', a_lastModified := dateNow e (a_id a) 0\<rparr>"
    by (cases "transform (isoNow e (a_id a)) (a_originalData a)") (simp_all add: transformedRow_def)
next
  assume "getArtifact i st = Some a \<and> transform (isoNow e i) (a_originalData a) = Inl err"
  then show "fst (transformOne e i st) = TError500 (''Error transforming artifact: '' @ message err)"
    by (simp add: transformOne_def)
qed

theorem transformAll_failure_isolated_witness:
  "wf_storage broken_ledger
   \<and> new_row 1 ''Empty'' ''X1'' ''other'' (JObj []) \<in> set (getArtifactsByStatus ''new'' broken_ledger)
   \<and> isl (transform (isoNow target_ok 1) (JObj []))
   \<and> getArtifact 1 (snd (transformAll target_ok broken_ledger))
       = Some ((new_row 1 ''Empty'' ''X1'' ''other'' (JObj []))\<lparr>a_status := ''error'', a_lastModified := 1000\<rparr>)
   \<and> fst (transformOne target_ok 1 broken_ledger)
       = TError500 ''Error transforming artifact: Transformation failed: Invalid data structure''"
proof -
  let ?a = "new_row 1 ''Empty'' ''X1'' ''other'' (JObj [])"
  have wf: "wf_storage broken_ledger" by code_simp
  have new: "?a \<in> set (getArtifactsByStatus ''new'' broken_ledger)" by code_simp
  have f: "transform (isoNow target_ok 1) (JObj []) = Inl (Err ''Transformation failed: Invalid data structure'')"
    by code_simp
  have g: "getArtifact 1 broken_ledger = Some ?a" by code_simp
  have i: "a_id ?a = 1" "a_originalData ?a = JObj []" "dateNow target_ok 1 0 = 1000"
    by (simp_all add: new_row_def target_ok_def)
  from wf new f g i
    transformAll_failure_isolated [of broken_ledger ?a target_ok 1
      "Err ''Transformation failed: Invalid data structure''"]
  show ?thesis by simp
qed

text \<open>
  C8 as stated fails: after a failed transformation the single route leaves the ledger
  as it was, with the artifact in status \<open>new\<close>, and the batch route stores the status
  \<open>error\<close> and no message.
\<close>

theorem transform_failure_counterexample:
  "isl (transform (isoNow target_ok 1) (JObj []))
   \<and> snd (transformOne target_ok 1 broken_ledger) = broken_ledger
   \<and> map_option a_status (getArtifact 1 broken_ledger) = Some ''new''
   \<and> getArtifact 1 (snd (transformAll target_ok broken_ledger))
       = Some ((new_row 1 ''Empty'' ''X1'' ''other'' (JObj []))\<lparr>a_status := ''error'', a_lastModified := 1000\<rparr>)"
  by code_simp

section \<open>C9: which mapping is applied\<close>




section \<open>C10: updateArtifact, what it changes and what it leaves\<close>

lemma spread_updates_frame:
  "a_id (spread_updates a u now) = a_id a"
  "a_createdAt (spread_updates a u now) = a_createdAt a"
  "a_lastModified (spread_updates a u now) = now"
  "u_name u = None \<Longrightarrow> a_name (spread_updates a u now) = a_name a"
  "u_originalId u = None \<Longrightarrow> a_originalId (spread_updates a u now) = a_originalId a"
  "u_type u = None \<Longrightarrow> a_type (spread_updates a u now) = a_type a"
  "u_status u = None \<Longrightarrow> a_status (spread_updates a u now) = a_status a"
  "u_originalData u = None \<Longrightarrow> a_originalData (spread_updates a u now) = a_originalData a"
  "u_transformedData u = None \<Longrightarrow>
     a_transformedData (spread_updates a u now) = a_transformedData a"
  "u_apmId u = None \<Longrightarrow> a_apmId (spread_updates a u now) = a_apmId a"
  "u_extractionId u = None \<Longrightarrow> a_extractionId (spread_updates a u now) = a_extractionId a"
  by (simp_all add: spread_updates_def)

text \<open>
  C10. \<open>updateArtifact\<close> on an id of the ledger returns the stored row; in it every field
  that the update does not name keeps its value (\<open>id\<close> and \<open>createdAt\<close> cannot be named),
  and \<open>lastModified\<close> is the current time, also when the update names it. The other rows,
  the order of the rows, the migrations and the counters are unchanged. On an id that is
  not in the ledger it returns \<open>undefined\<close> and the store is unchanged.
\<close>

theorem updateArtifact_frame:
  "(case map_of (artifacts st) i of
      None \<Rightarrow> updateArtifact now i u st = (None, st)
    | Some a \<Rightarrow>
        (\<exists>a' st'. updateArtifact now i u st = (Some a', st')
          \<and> map_of (artifacts st') i = Some a'
          \<and> a_lastModified a' = now
          \<and> a_id a' = a_id a \<and> a_createdAt a' = a_createdAt a
          \<and> (u_name u = None \<longrightarrow> a_name a' = a_name a)
          \<and> (u_originalId u = None \<longrightarrow> a_originalId a' = a_originalId a)
          \<and> (u_type u = None \<longrightarrow> a_type a' = a_type a)
          \<and> (u_status u = None \<longrightarrow> a_status a' = a_status a)
          \<and> (u_originalData u = None \<longrightarrow> a_originalData a' = a_originalData a)
          \<and> (u_transformedData u = None \<longrightarrow> a_transformedData a' = a_transformedData a)
          \<and> (u_apmId u = None \<longrightarrow> a_apmId a' = a_apmId a)
          \<and> (u_extractionId u = None \<longrightarrow> a_extractionId a' = a_extractionId a)
          \<and> (\<forall>j. j \<noteq> i \<longrightarrow> map_of (artifacts st') j = map_of (artifacts st) j)
          \<and> map fst (artifacts st') = map fst (artifacts st)
          \<and> migrations st' = migrations st
          \<and> artifactId st' = artifactId st
          \<and> migrationId st' = migrationId st))"
proof (cases "map_of (artifacts st) i")
  case None
  then show ?thesis by (simp add: updateArtifact_def)
next
  case (Some a)
  then have keys: "i \<in> fst ` set (artifacts st)"
    by (metis domI dom_map_of_conv_image_fst)
  show ?thesis
    using Some keys
    by (simp add: updateArtifact_def Let_def spread_updates_frame update_conv' update_keys)
qed

theorem updateArtifact_frame_witness:
  "(\<exists>a' st'. updateArtifact 99 1 (no_updates\<lparr>u_status := Some ''pending''\<rparr>) fresh_ledger
        = (Some a', st')
      \<and> a_lastModified a' = 99 \<and> a_name a' = ''Acme'' \<and> a_transformedData a' = JUndefined
      \<and> migrations st' = [] \<and> migrationId st' = 1)
   \<and> updateArtifact 99 2 (no_updates\<lparr>u_status := Some ''pending''\<rparr>) fresh_ledger
        = (None, fresh_ledger)"
  using updateArtifact_frame [where st = fresh_ledger and i = 1 and now = 99
      and u = "no_updates\<lparr>u_status := Some ''pending''\<rparr>"]
    updateArtifact_frame [where st = fresh_ledger and i = 2 and now = 99
      and u = "no_updates\<lparr>u_status := Some ''pending''\<rparr>"]
  by (auto simp add: fresh_ledger_def fresh_row_def new_row_def no_updates_def)

end
